theory Spec2Isabelle
  imports Complex_Main "HOL-Library.Log_Nat"
begin

section \<open>Numbers\<close>

text \<open>
  Every numeric field of the journal is a JavaScript \<^verbatim>\<open>number\<close>, a binary
  floating-point value with a significand of 53 bits. A finite number is modelled by
  the real it denotes, \<open>Num r\<close>, and the not-a-number value by \<open>NaN\<close>, which
  \<^verbatim>\<open>parseFloat\<close> returns on text without a numeric prefix and which every arithmetic
  operation propagates.

  Each arithmetic operation returns the exact result rounded to the nearest number
  with 53 significant bits, a tie going to the even significand: \<open>rnd\<close>. The value
  \<open>exponent x\<close> is the integer \<open>e\<close> with \<open>2 ^ e \<le> \<bar>x\<bar> < 2 ^ (e + 1)\<close>. The range of the
  exponent is not bounded here: overflow to an infinity, subnormal numbers and the
  sign of zero are outside the model.

  Every comparison with \<open>NaN\<close> is false, as in the source language. Each division of the
  modelled code is guarded by a test of its divisor (\<^verbatim>\<open>entryPrice > 0\<close>,
  \<^verbatim>\<open>entryPrice === 0\<close>, \<^verbatim>\<open>totalTrades === 0\<close>, \<^verbatim>\<open>trades.length > 0\<close>), so the value given
  here to a division by zero is never used.
\<close>

definition round_even :: "real \<Rightarrow> int" where
  "round_even x =
     (let f = \<lfloor>x\<rfloor>; d = x - of_int f
      in if d < 1 / 2 then f else if 1 / 2 < d then f + 1 else if even f then f else f + 1)"

definition exponent :: "real \<Rightarrow> int" where
  "exponent x = (if 1 \<le> \<bar>x\<bar> then bitlen \<lfloor>\<bar>x\<bar>\<rfloor> - 1 else - bitlen (\<lceil>1 / \<bar>x\<bar>\<rceil> - 1))"

definition rnd :: "real \<Rightarrow> real" where
  "rnd x =
     (if x = 0 then 0
      else of_int (round_even (x * 2 powi (52 - exponent x))) * 2 powi (exponent x - 52))"

datatype number = Num real | NaN

instantiation number :: "{plus, minus, times, inverse, ord}"
begin

fun plus_number :: "number \<Rightarrow> number \<Rightarrow> number" where
  "plus_number (Num a) (Num b) = Num (rnd (a + b))"
| "plus_number _ _ = NaN"

fun minus_number :: "number \<Rightarrow> number \<Rightarrow> number" where
  "minus_number (Num a) (Num b) = Num (rnd (a - b))"
| "minus_number _ _ = NaN"

fun times_number :: "number \<Rightarrow> number \<Rightarrow> number" where
  "times_number (Num a) (Num b) = Num (rnd (a * b))"
| "times_number _ _ = NaN"

fun divide_number :: "number \<Rightarrow> number \<Rightarrow> number" where
  "divide_number (Num a) (Num b) = (if b = 0 then NaN else Num (rnd (a / b)))"
| "divide_number _ _ = NaN"

fun inverse_number :: "number \<Rightarrow> number" where
  "inverse_number (Num a) = (if a = 0 then NaN else Num (rnd (1 / a)))"
| "inverse_number NaN = NaN"

fun less_number :: "number \<Rightarrow> number \<Rightarrow> bool" where
  "less_number (Num a) (Num b) = (a < b)"
| "less_number _ _ = False"

fun less_eq_number :: "number \<Rightarrow> number \<Rightarrow> bool" where
  "less_eq_number (Num a) (Num b) = (a \<le> b)"
| "less_eq_number _ _ = False"

instance ..

end

text \<open>Truthiness of a number (\<^verbatim>\<open>0\<close> and \<^verbatim>\<open>NaN\<close> are falsy) and \<^verbatim>\<open>x || y\<close> on numbers.\<close>

fun truthy :: "number \<Rightarrow> bool" where
  "truthy (Num r) = (r \<noteq> 0)"
| "truthy NaN = False"

definition or_else :: "number \<Rightarrow> number \<Rightarrow> number" where
  "or_else x y = (if truthy x then x else y)"

section \<open>Strings\<close>

text \<open>
  Strings are byte strings; the functions below are the built-in string operations the
  source calls, on ASCII text.
\<close>

definition isDigit :: "char \<Rightarrow> bool" where
  "isDigit c = (48 \<le> (of_char c :: nat) \<and> (of_char c :: nat) \<le> 57)"

definition digitValue :: "char \<Rightarrow> nat" where
  "digitValue c = of_char c - 48"

definition digitChar :: "nat \<Rightarrow> char" where
  "digitChar d = char_of (48 + d)"

text \<open>\<^verbatim>\<open>Number.prototype.toString\<close> on a non-negative integer: its decimal digits.\<close>

fun toString :: "nat \<Rightarrow> string" where
  "toString n = (if n < 10 then [digitChar n] else toString (n div 10) @ [digitChar (n mod 10)])"

declare toString.simps [simp del]

text \<open>\<^verbatim>\<open>String.prototype.padStart\<close> with a one-character filler.\<close>

definition padStart :: "nat \<Rightarrow> char \<Rightarrow> string \<Rightarrow> string" where
  "padStart targetLength c s = replicate (targetLength - length s) c @ s"

definition toUpperChar :: "char \<Rightarrow> char" where
  "toUpperChar c =
     (if 97 \<le> (of_char c :: nat) \<and> (of_char c :: nat) \<le> 122 then char_of ((of_char c :: nat) - 32) else c)"

definition toUpperCase :: "string \<Rightarrow> string" where
  "toUpperCase s = map toUpperChar s"

subsection \<open>parseFloat\<close>

text \<open>
  \<^verbatim>\<open>parseFloat\<close> skips leading white space and reads the longest prefix that is a decimal
  literal: an optional sign, digits with an optional fraction (or a fraction alone), and
  an exponent when \<^verbatim>\<open>e\<close> is followed by an optionally signed digit; the result is the
  number nearest to the value of the literal. Without such a prefix the result is
  \<open>NaN\<close>. The literal \<^verbatim>\<open>Infinity\<close> is not read, the number type having no infinite value.
\<close>

definition isWhiteSpace :: "char \<Rightarrow> bool" where
  "isWhiteSpace c = ((of_char c :: nat) \<in> {9, 10, 11, 12, 13, 32})"

definition digitsValue :: "string \<Rightarrow> nat" where
  "digitsValue ds = foldl (\<lambda>a c. 10 * a + digitValue c) 0 ds"

definition signedInteger :: "string \<Rightarrow> int" where
  "signedInteger s =
     (case s of
        [] \<Rightarrow> 0
      | c # r \<Rightarrow>
          if c = CHR ''+'' then int (digitsValue (takeWhile isDigit r))
          else if c = CHR ''-'' then - int (digitsValue (takeWhile isDigit r))
          else int (digitsValue (takeWhile isDigit s)))"

definition exponentPart :: "string \<Rightarrow> int" where
  "exponentPart s =
     (case s of
        [] \<Rightarrow> 0
      | c # r \<Rightarrow> if c = CHR ''e'' \<or> c = CHR ''E'' then signedInteger r else 0)"

definition scale10 :: "real \<Rightarrow> int \<Rightarrow> real" where
  "scale10 m e = (if 0 \<le> e then m * 10 ^ nat e else m / 10 ^ nat (- e))"

definition strUnsignedDecimalLiteral :: "string \<Rightarrow> number" where
  "strUnsignedDecimalLiteral s =
     (let ip = takeWhile isDigit s;
          r1 = dropWhile isDigit s;
          fp = (case r1 of [] \<Rightarrow> [] | c # r \<Rightarrow> if c = CHR ''.'' then takeWhile isDigit r else []);
          r2 = (case r1 of [] \<Rightarrow> [] | c # r \<Rightarrow> if c = CHR ''.'' then dropWhile isDigit r else r1)
      in if ip = [] \<and> fp = [] then NaN
         else Num (rnd (scale10 (real (digitsValue (ip @ fp)) / 10 ^ length fp) (exponentPart r2))))"

definition parseFloat :: "string \<Rightarrow> number" where
  "parseFloat s =
     (case dropWhile isWhiteSpace s of
        [] \<Rightarrow> NaN
      | c # r \<Rightarrow>
          if c = CHR ''-'' then Num 0 - strUnsignedDecimalLiteral r
          else if c = CHR ''+'' then strUnsignedDecimalLiteral r
          else strUnsignedDecimalLiteral (c # r))"

text \<open>
  A value of the assistant's reply that the source passes to \<^verbatim>\<open>parseFloat\<close>: a number, a
  string, or nothing (\<^verbatim>\<open>undefined\<close>, \<^verbatim>\<open>null\<close>). A number is first printed and then read
  back, which returns it; \<^verbatim>\<open>undefined\<close> prints as text without a numeric prefix.
\<close>

datatype jsvalue = JNumber number | JString string | JUndefined

fun parseFloatValue :: "jsvalue \<Rightarrow> number" where
  "parseFloatValue (JNumber n) = n"
| "parseFloatValue (JString s) = parseFloat s"
| "parseFloatValue JUndefined = NaN"

section \<open>types.ts: enums\<close>

datatype TradeDirection = Long | Short

datatype TradeSource =
  SelfDiscovered | YouTube | TwitterX | UnusualOptions | AnalystReport
  | EarningsCatalyst | AISuggestion | Other

datatype EmotionalState = Calm | Excited | FOMO | Revenge

datatype ExitReason =
  ProfitTarget | StopLoss | ThesisChanged | BetterOpportunity | Rebalancing | ExitOther

section \<open>utils/helpers.ts: profit and loss\<close>

definition calculatePL :: "number \<Rightarrow> number \<Rightarrow> number \<Rightarrow> TradeDirection \<Rightarrow> number" where
  "calculatePL entryPrice currentPrice shareCount direction =
     (if direction = Long then (currentPrice - entryPrice) * shareCount
      else (entryPrice - currentPrice) * shareCount)"


section \<open>types.ts: records\<close>

record CriteriaChecklist =
  catalyst45Days :: bool
  analystsCovering :: bool
  institutionalOwnership :: bool
  technicalSetup :: bool
  explainable :: bool

text \<open>
  \<^verbatim>\<open>TradeAccount\<close> is a string enum, and the account of a new trade is an unchecked cast
  of the assistant's reply: an account name is a string, the enum gives four of them.
\<close>

type_synonym TradeAccount = string

definition IncomeGenerator :: TradeAccount where "IncomeGenerator = ''Income Generator''"
definition Speculation :: TradeAccount where "Speculation = ''Speculation''"
definition TradingLab :: TradeAccount where "TradingLab = ''Trading Lab''"
definition Uncategorized :: TradeAccount where "Uncategorized = ''Uncategorized''"

text \<open>The reply of the assistant (\<^verbatim>\<open>parsedTrade\<close>, stored as \<^verbatim>\<open>frameworkData\<close>).\<close>

record ParsedTrade =
  ai_account :: "string option"
  ai_tradeType :: "string option"
  ai_ticker :: "string option"
  ai_action :: "string option"
  ai_direction :: TradeDirection
  ai_quantity :: number
  ai_entryPrice :: jsvalue
  ai_positionSize :: jsvalue
  ai_thesis :: "string option"
  ai_stopLoss :: jsvalue
  ai_emotionalState :: "EmotionalState option"
  ai_validationFlags :: "string list option"

datatype Thesis = ThesisText string | ThesisPoints string string string

record PriceCase =
  price :: number
  probability :: number

record TakeProfit =
  p25 :: number
  p50 :: number
  p100 :: number

record TradeEntryData =
  id_t :: string
  entryDate :: string
  ticker :: string
  entryPrice :: number
  positionSize :: number
  shareCount :: number
  direction :: TradeDirection
  source :: TradeSource
  sourceDetail :: string
  conviction :: number
  thesis :: Thesis
  catalystDescription :: string
  catalystDate :: string
  bullCase :: PriceCase
  bearCase :: PriceCase
  stopLoss :: number
  takeProfit :: TakeProfit
  portfolioValueOnEntry :: number
  maxRiskPercent :: number
  emotionalState :: EmotionalState
  checklist :: CriteriaChecklist
  account :: "TradeAccount option"
  rawUserInput :: "string option"
  frameworkData :: "ParsedTrade option"

datatype Decision = Yes | No

record WouldTakeAgain =
  decision :: Decision
  reason :: string

record TradeExitData =
  exitDate :: string
  exitPrice :: number
  exitReason :: ExitReason
  exitReasonDetail :: string
  reviewRight :: string
  reviewWrong :: string
  lessonLearned :: string
  wouldTakeAgain :: WouldTakeAgain
  selfRating :: number

text \<open>
  The field \<^verbatim>\<open>status\<close> is the tag of the union \<open>Trade\<close>. A closed trade is built by
  spreading the active trade, so it keeps \<^verbatim>\<open>currentPrice\<close> next to the entry fields.
\<close>

record ActiveTrade = TradeEntryData +
  currentPrice :: "number option"

record ClosedTrade = ActiveTrade +
  exitData :: TradeExitData

datatype Trade = Active ActiveTrade | Closed ClosedTrade

record AccountState =
  name :: TradeAccount
  startingValue :: number
  currentCash :: number

record Settings =
  portfolioStartingValue :: number
  riskPerTrade :: number
  maxPositionSize :: number
  minCashPercent :: number
  tradingTimezone :: string
  accounts :: "AccountState list"

section \<open>utils/helpers.ts: classification\<close>

fun isTradeActive :: "Trade \<Rightarrow> bool" where
  "isTradeActive (Active a) = True"
| "isTradeActive (Closed c) = False"

fun isTradeClosed :: "Trade \<Rightarrow> bool" where
  "isTradeClosed (Active a) = False"
| "isTradeClosed (Closed c) = True"

text \<open>The entry fields of a stored trade, whichever its status.\<close>

fun entryData :: "Trade \<Rightarrow> TradeEntryData" where
  "entryData (Active a) = TradeEntryData.truncate a"
| "entryData (Closed c) = TradeEntryData.truncate c"

section \<open>App.tsx: state\<close>

text \<open>
  The persisted trades and settings of \<^verbatim>\<open>App\<close>, its flag for the journal dialog, and
  the trade selected for closing in \<^verbatim>\<open>DashboardView\<close>. The watchlist and the circuit
  breaker are stored too, and no handler reads or writes them.
\<close>

record AppState =
  trades :: "Trade list"
  settings :: Settings
  isJournalEntryOpen :: bool
  tradeToClose :: "ActiveTrade option"

definition initialSettings :: Settings where
  "initialSettings =
     \<lparr>portfolioStartingValue = Num 22000, riskPerTrade = Num 2, maxPositionSize = Num 30,
      minCashPercent = Num 5, tradingTimezone = ''UTC'',
      accounts =
        [\<lparr>name = IncomeGenerator, startingValue = Num 17000, currentCash = Num 17000\<rparr>,
         \<lparr>name = Speculation, startingValue = Num 3000, currentCash = Num 3000\<rparr>,
         \<lparr>name = TradingLab, startingValue = Num 2000, currentCash = Num 2000\<rparr>]\<rparr>"

definition initialState :: AppState where
  "initialState =
     \<lparr>trades = [], settings = initialSettings, isJournalEntryOpen = False, tradeToClose = None\<rparr>"

definition activeTrades :: "Trade list \<Rightarrow> ActiveTrade list" where
  "activeTrades ts = [a. Active a \<leftarrow> ts]"

definition closedTrades :: "Trade list \<Rightarrow> ClosedTrade list" where
  "closedTrades ts = [c. Closed c \<leftarrow> ts]"

section \<open>App.tsx: opening a trade\<close>

definition handleAddTrade :: "ActiveTrade \<Rightarrow> AppState \<Rightarrow> AppState" where
  "handleAddTrade newTrade st =
     st\<lparr>trades := trades st @ [Active newTrade],
        settings := (settings st)\<lparr>accounts :=
          map (\<lambda>acc. if Some (name acc) = account newTrade
                      then acc\<lparr>currentCash := currentCash acc - positionSize newTrade\<rparr>
                      else acc)
              (accounts (settings st))\<rparr>,
        isJournalEntryOpen := False\<rparr>"

text \<open>
  \<^verbatim>\<open>AIJournalEntryModal.handleConfirm\<close>: the new trade built from the assistant's reply,
  the text the user typed, the stored trades and settings and the time of the call.
\<close>

definition currentPortfolioValue :: "Settings \<Rightarrow> ActiveTrade list \<Rightarrow> number" where
  "currentPortfolioValue cfg act =
     foldl (\<lambda>sum acc. sum + currentCash acc) (Num 0) (accounts cfg)
     + foldl (\<lambda>sum t. sum + positionSize t) (Num 0) act"

definition newTradeId :: "Trade list \<Rightarrow> string" where
  "newTradeId ts = ''TRADE-'' @ padStart 3 (CHR ''0'') (toString (length ts + 1))"

definition newTrade :: "string \<Rightarrow> string \<Rightarrow> ParsedTrade \<Rightarrow> Trade list \<Rightarrow> Settings \<Rightarrow> ActiveTrade" where
  "newTrade now userInput parsedTrade ts cfg =
     (let entryPrice' = or_else (parseFloatValue (ai_entryPrice parsedTrade)) (Num 0);
          positionSize' = or_else (parseFloatValue (ai_positionSize parsedTrade)) (Num 0);
          assignedAccount =
            (case ai_account parsedTrade of
               None \<Rightarrow> Uncategorized
             | Some a \<Rightarrow> if a = [] then Uncategorized else a)
      in \<lparr>id_t = newTradeId ts,
          entryDate = now,
          ticker =
            (case ai_ticker parsedTrade of
               None \<Rightarrow> ''N/A''
             | Some t \<Rightarrow> if toUpperCase t = [] then ''N/A'' else toUpperCase t),
          entryPrice = entryPrice',
          positionSize = positionSize',
          shareCount =
            (if entryPrice' > Num 0 then positionSize' / entryPrice' else ai_quantity parsedTrade),
          direction = ai_direction parsedTrade,
          source = AISuggestion,
          sourceDetail = ''AI Journal Entry'',
          conviction = Num 5,
          thesis = ThesisText (case ai_thesis parsedTrade of None \<Rightarrow> [] | Some t \<Rightarrow> t),
          catalystDescription = [],
          catalystDate = [],
          bullCase = \<lparr>price = Num 0, probability = Num 50\<rparr>,
          bearCase = \<lparr>price = Num 0, probability = Num 50\<rparr>,
          stopLoss = or_else (parseFloatValue (ai_stopLoss parsedTrade)) (Num 0),
          takeProfit = \<lparr>p25 = Num 0, p50 = Num 0, p100 = Num 0\<rparr>,
          portfolioValueOnEntry = currentPortfolioValue cfg (activeTrades ts),
          maxRiskPercent = riskPerTrade cfg,
          emotionalState =
            (case ai_emotionalState parsedTrade of None \<Rightarrow> Calm | Some e \<Rightarrow> e),
          checklist =
            \<lparr>catalyst45Days = False, analystsCovering = False, institutionalOwnership = False,
             technicalSetup = False, explainable = False\<rparr>,
          account = Some assignedAccount,
          rawUserInput = Some userInput,
          frameworkData = Some parsedTrade,
          currentPrice = None\<rparr>)"

definition handleConfirm :: "string \<Rightarrow> string \<Rightarrow> ParsedTrade \<Rightarrow> AppState \<Rightarrow> AppState" where
  "handleConfirm now userInput parsedTrade st =
     handleAddTrade (newTrade now userInput parsedTrade (trades st) (settings st)) st"

section \<open>App.tsx: closing a trade\<close>

definition handleCloseTrade :: "ClosedTrade \<Rightarrow> AppState \<Rightarrow> AppState" where
  "handleCloseTrade closedTradeData st =
     (let pl = calculatePL (entryPrice closedTradeData) (exitPrice (exitData closedTradeData))
                 (shareCount closedTradeData) (direction closedTradeData)
      in st\<lparr>trades :=
              map (\<lambda>t. if id_t (entryData t) = id_t closedTradeData then Closed closedTradeData else t)
                  (trades st),
            settings := (settings st)\<lparr>accounts :=
              map (\<lambda>acc. if Some (name acc) = account closedTradeData
                          then acc\<lparr>currentCash :=
                                  currentCash acc + positionSize closedTradeData + pl\<rparr>
                          else acc)
                  (accounts (settings st))\<rparr>,
            tradeToClose := None\<rparr>)"

text \<open>The state of \<^verbatim>\<open>TradeExitForm\<close>; the exit price is the text of its input.\<close>

record ExitForm =
  form_exitPrice :: string
  form_exitReason :: ExitReason
  form_exitReasonDetail :: string
  form_reviewRight :: string
  form_reviewWrong :: string
  form_lessonLearned :: string
  form_wouldTakeAgain :: Decision
  form_wouldTakeAgainReason :: string
  form_selfRating :: number

definition initialForm :: ExitForm where
  "initialForm =
     \<lparr>form_exitPrice = [], form_exitReason = ProfitTarget, form_exitReasonDetail = [],
      form_reviewRight = [], form_reviewWrong = [], form_lessonLearned = [],
      form_wouldTakeAgain = Yes, form_wouldTakeAgainReason = [], form_selfRating = Num 3\<rparr>"

text \<open>
  \<^verbatim>\<open>TradeExitForm.handleSubmit\<close>: \<open>Inl\<close> is the text of the alert, after which the handler
  returns; \<open>Inr\<close> is the closed trade handed to \<^verbatim>\<open>onConfirmClose\<close>.
\<close>

definition handleSubmit :: "string \<Rightarrow> ActiveTrade \<Rightarrow> ExitForm \<Rightarrow> string + ClosedTrade" where
  "handleSubmit now trade form =
     (if form_exitPrice form = [] then Inl ''Exit price is required.''
      else Inr (ActiveTrade.extend trade
        (ClosedTrade.fields
           \<lparr>exitDate = now,
            exitPrice = parseFloat (form_exitPrice form),
            exitReason = form_exitReason form,
            exitReasonDetail = form_exitReasonDetail form,
            reviewRight = form_reviewRight form,
            reviewWrong = form_reviewWrong form,
            lessonLearned = form_lessonLearned form,
            wouldTakeAgain =
              \<lparr>decision = form_wouldTakeAgain form, reason = form_wouldTakeAgainReason form\<rparr>,
            selfRating = form_selfRating form\<rparr>)))"

text \<open>
  Submitting the exit form of the dashboard: the form is shown for the trade selected
  for closing, and its \<^verbatim>\<open>onConfirmClose\<close> is \<open>handleCloseTrade\<close>. The result is the alert,
  if any, and the state after the event.
\<close>

definition submitExitForm :: "string \<Rightarrow> ExitForm \<Rightarrow> AppState \<Rightarrow> string option \<times> AppState" where
  "submitExitForm now form st =
     (case tradeToClose st of
        None \<Rightarrow> (None, st)
      | Some trade \<Rightarrow>
          (case handleSubmit now trade form of
             Inl alert \<Rightarrow> (Some alert, st)
           | Inr closedTrade \<Rightarrow> (None, handleCloseTrade closedTrade st)))"

section \<open>App.tsx: analytics\<close>

text \<open>\<^verbatim>\<open>AccountPerformanceCard\<close>: the statistics of the closed trades of one account.\<close>

record Stats =
  totalTrades :: nat
  winRate :: number
  totalPL :: number
  avgPL :: number

definition realizedPL :: "ClosedTrade \<Rightarrow> number" where
  "realizedPL t = calculatePL (entryPrice t) (exitPrice (exitData t)) (shareCount t) (direction t)"

definition stats :: "ClosedTrade list \<Rightarrow> Stats" where
  "stats ts =
     (if length ts = 0 then \<lparr>totalTrades = 0, winRate = Num 0, totalPL = Num 0, avgPL = Num 0\<rparr>
      else
        (let (totalPL', wins) =
               foldl (\<lambda>(totalPL', wins) t.
                        (let pl = realizedPL t
                         in (totalPL' + pl, if pl > Num 0 then wins + 1 else wins)))
                     (Num 0, 0 :: nat) ts
         in \<lparr>totalTrades = length ts,
             winRate = (Num (real wins) / Num (real (length ts))) * Num 100,
             totalPL = totalPL',
             avgPL = totalPL' / Num (real (length ts))\<rparr>))"

text \<open>
  \<^verbatim>\<open>AnalyticsView.accountData\<close>: one list for each name of the enum; a closed trade is
  pushed on the list of its account, or of \<open>Uncategorized\<close> when it has none. A trade
  whose account is no name of the enum finds no list: the push raises \<^verbatim>\<open>TypeError\<close>.
\<close>

datatype error = TypeError

fun push :: "('k \<times> 'v list) list \<Rightarrow> 'k \<Rightarrow> 'v \<Rightarrow> error + ('k \<times> 'v list) list" where
  "push [] key v = Inl TypeError"
| "push ((k, vs) # rest) key v =
     (if k = key then Inr ((k, vs @ [v]) # rest)
      else (case push rest key v of Inl e \<Rightarrow> Inl e | Inr rest' \<Rightarrow> Inr ((k, vs) # rest')))"

definition accountKey :: "ClosedTrade \<Rightarrow> TradeAccount" where
  "accountKey t = (case account t of None \<Rightarrow> Uncategorized | Some a \<Rightarrow> if a = [] then Uncategorized else a)"

fun accountDataLoop ::
  "(TradeAccount \<times> ClosedTrade list) list \<Rightarrow> ClosedTrade list \<Rightarrow> error + (TradeAccount \<times> ClosedTrade list) list" where
  "accountDataLoop data [] = Inr data"
| "accountDataLoop data (t # ts) =
     (case push data (accountKey t) t of Inl e \<Rightarrow> Inl e | Inr data' \<Rightarrow> accountDataLoop data' ts)"

definition accountData :: "ClosedTrade list \<Rightarrow> error + (TradeAccount \<times> ClosedTrade list) list" where
  "accountData cts =
     accountDataLoop [(IncomeGenerator, []), (Speculation, []), (TradingLab, []), (Uncategorized, [])] cts"

text \<open>The cards of the analytics view: the statistics of each account but \<open>Uncategorized\<close>.\<close>

definition accountCards :: "ClosedTrade list \<Rightarrow> error + (TradeAccount \<times> Stats) list" where
  "accountCards cts =
     (case accountData cts of
        Inl e \<Rightarrow> Inl e
      | Inr data \<Rightarrow> Inr (map (\<lambda>(a, ts). (a, stats ts)) (filter (\<lambda>(a, ts). a \<noteq> Uncategorized) data)))"

text \<open>
  \<^verbatim>\<open>AnalyticsView.sourceData\<close>: the closed trades grouped by source, a list being created
  at the first trade of a source, in that order; then the count and the win rate of
  each group.
\<close>

fun pushSource :: "(TradeSource \<times> ClosedTrade list) list \<Rightarrow> ClosedTrade \<Rightarrow> (TradeSource \<times> ClosedTrade list) list" where
  "pushSource [] t = [(source t, [t])]"
| "pushSource ((k, vs) # rest) t =
     (if k = source t then (k, vs @ [t]) # rest else (k, vs) # pushSource rest t)"

definition groupBySource :: "ClosedTrade list \<Rightarrow> (TradeSource \<times> ClosedTrade list) list" where
  "groupBySource cts = foldl pushSource [] cts"

record SourceDatum =
  sd_name :: TradeSource
  sd_trades :: nat
  sd_winRate :: number

definition sourceDatum :: "TradeSource \<times> ClosedTrade list \<Rightarrow> SourceDatum" where
  "sourceDatum entry =
     (let wins = length (filter (\<lambda>t. realizedPL t > Num 0) (snd entry))
      in \<lparr>sd_name = fst entry,
          sd_trades = length (snd entry),
          sd_winRate =
            (if length (snd entry) > 0
             then (Num (real wins) / Num (real (length (snd entry)))) * Num 100
             else Num 0)\<rparr>)"

definition sourceData :: "ClosedTrade list \<Rightarrow> SourceDatum list" where
  "sourceData cts = map sourceDatum (groupBySource cts)"

section \<open>App.tsx: the events of a session\<close>

text \<open>
  The user events that change the state, each with the handler it runs: the button and
  the dialog of a new journal entry (the dialog, and with it \<^verbatim>\<open>handleConfirm\<close>, exists
  only while the flag is set), the \<^verbatim>\<open>Close\<close> button of the card of an active trade, and
  the exit form. A session is a list of events run from the initial state.
\<close>

datatype event =
  OpenJournal
  | CloseJournal
  | ConfirmTrade string string ParsedTrade
  | SelectTrade ActiveTrade
  | CancelExit
  | SubmitExit string ExitForm

fun step :: "AppState \<Rightarrow> event \<Rightarrow> AppState" where
  "step st OpenJournal = st\<lparr>isJournalEntryOpen := True\<rparr>"
| "step st CloseJournal = st\<lparr>isJournalEntryOpen := False\<rparr>"
| "step st (ConfirmTrade now userInput parsedTrade) =
     (if isJournalEntryOpen st then handleConfirm now userInput parsedTrade st else st)"
| "step st (SelectTrade a) =
     (if a \<in> set (activeTrades (trades st)) then st\<lparr>tradeToClose := Some a\<rparr> else st)"
| "step st CancelExit = st\<lparr>tradeToClose := None\<rparr>"
| "step st (SubmitExit now form) = snd (submitExitForm now form st)"

definition run :: "event list \<Rightarrow> AppState" where
  "run es = foldl step initialState es"

text \<open>
  The ids of a list of stored trades are numbered when each is the id that
  \<open>newTradeId\<close> gives to a new trade after the trades before it.
\<close>

definition numbered :: "Trade list \<Rightarrow> bool" where
  "numbered ts = (map (id_t \<circ> entryData) ts = map (\<lambda>n. newTradeId (take n ts)) [0..<length ts])"

section \<open>Example data\<close>

text \<open>
  A ledger with two accounts, the second with 5000 in cash; a reply of the assistant
  that proposes a long trade of size 1000 at price 100 on that account; a reply without
  an account, and one with an account that is none of the configured ones; the reply
  of the round trip of the specification (price 150, size 15000); exit forms that
  leave every field but the price at its initial value; the example trade closed at a
  given price, and three such closed trades with profits of 100, -50 and 30; a session
  that opens two trades; a ledger whose account has 100.1 in cash, with a trade of size
  1000.1 on it, active and closed at its entry price.
\<close>

definition exampleState :: AppState where
  "exampleState =
     initialState\<lparr>settings := initialSettings\<lparr>accounts :=
       [\<lparr>name = IncomeGenerator, startingValue = Num 17000, currentCash = Num 17000\<rparr>,
        \<lparr>name = TradingLab, startingValue = Num 5000, currentCash = Num 5000\<rparr>]\<rparr>\<rparr>"

definition exampleReply :: ParsedTrade where
  "exampleReply =
     \<lparr>ai_account = Some ''Trading Lab'', ai_tradeType = Some ''BUY_SHARES'',
      ai_ticker = Some ''tsm'', ai_action = Some ''OPEN'', ai_direction = Long,
      ai_quantity = Num 10, ai_entryPrice = JNumber (Num 100),
      ai_positionSize = JNumber (Num 1000), ai_thesis = Some ''AI chip demand'',
      ai_stopLoss = JNumber (Num 90), ai_emotionalState = None, ai_validationFlags = None\<rparr>"

definition exampleTrade :: ActiveTrade where
  "exampleTrade =
     newTrade ''2025-01-01T10:00:00.000Z'' ''Buying TSM, size 1000 at 100'' exampleReply
       (trades exampleState) (settings exampleState)"

definition unassignedReply :: ParsedTrade where
  "unassignedReply = exampleReply\<lparr>ai_account := None\<rparr>"

definition unknownAccountReply :: ParsedTrade where
  "unknownAccountReply = exampleReply\<lparr>ai_account := Some ''Crypto''\<rparr>"

definition roundTripReply :: ParsedTrade where
  "roundTripReply =
     exampleReply\<lparr>ai_account := Some ''Income Generator'', ai_quantity := Num 1,
       ai_entryPrice := JNumber (Num 150), ai_positionSize := JNumber (Num 15000)\<rparr>"

definition exitFormAt :: "string \<Rightarrow> ExitForm" where
  "exitFormAt priceText = initialForm\<lparr>form_exitPrice := priceText\<rparr>"

definition exitDataAt :: "number \<Rightarrow> TradeExitData" where
  "exitDataAt p =
     \<lparr>exitDate = ''2025-02-01T10:00:00.000Z'', exitPrice = p, exitReason = ProfitTarget,
      exitReasonDetail = [], reviewRight = [], reviewWrong = [], lessonLearned = [],
      wouldTakeAgain = \<lparr>decision = Yes, reason = []\<rparr>, selfRating = Num 3\<rparr>"

definition exampleClosed :: ClosedTrade where
  "exampleClosed = ActiveTrade.extend exampleTrade (ClosedTrade.fields (exitDataAt (Num 120)))"

definition exampleClosedFlat :: ClosedTrade where
  "exampleClosedFlat = ActiveTrade.extend exampleTrade (ClosedTrade.fields (exitDataAt (Num 100)))"




definition closedAt :: "real \<Rightarrow> ClosedTrade" where
  "closedAt p = ActiveTrade.extend exampleTrade (ClosedTrade.fields (exitDataAt (Num p)))"

definition threeTrades :: "ClosedTrade list" where
  "threeTrades = [closedAt 110, closedAt 95, closedAt 103]"

definition exampleSession :: "event list" where
  "exampleSession =
     [OpenJournal,
      ConfirmTrade ''2025-01-01T10:00:00.000Z'' ''Buying TSM, size 1000 at 100'' exampleReply,
      OpenJournal,
      ConfirmTrade ''2025-01-02T10:00:00.000Z'' ''Buying TSM, size 15000 at 150'' roundTripReply]"

definition firstTrade :: ActiveTrade where
  "firstTrade =
     newTrade ''2025-01-01T10:00:00.000Z'' ''Buying TSM, size 1000 at 100'' exampleReply
       (trades initialState) (settings initialState)"

definition secondTrade :: ActiveTrade where
  "secondTrade =
     newTrade ''2025-01-02T10:00:00.000Z'' ''Buying TSM, size 15000 at 150'' roundTripReply
       (trades (run (take 2 exampleSession))) (settings (run (take 2 exampleSession)))"

definition secondClosed :: ClosedTrade where
  "secondClosed = ActiveTrade.extend secondTrade (ClosedTrade.fields (exitDataAt (Num 160)))"

section \<open>Rounding\<close>

text \<open>
  The exponent of a real that is not zero locates it between two powers of two, and
  rounding moves a real by at most half a unit of its last of 53 bits. Integers of
  magnitude up to \<open>2 ^ 53\<close> are numbers: rounding returns them.
\<close>

lemma rnd_zero [simp]: "rnd 0 = 0"
  by (simp add: rnd_def)

lemma round_even_of_int [simp]: "round_even (of_int m) = m"
  by (simp add: round_even_def)

lemma rnd_exact:
  assumes "x * 2 powi (52 - exponent x) = of_int m"
  shows "rnd x = x"
proof (cases "x = 0")
  case True
  then show ?thesis by simp
next
  case False
  have "of_int m * 2 powi (exponent x - 52) = x * (2 powi (52 - exponent x) * 2 powi (exponent x - 52))"
    using assms by (simp add: mult.assoc)
  also have "2 powi (52 - exponent x) * 2 powi (exponent x - 52) = (1 :: real)"
    by (simp add: power_int_add [symmetric])
  finally show ?thesis using False assms by (simp add: rnd_def)
qed

lemma exponent_of_int:
  assumes "n \<noteq> 0"
  shows "exponent (of_int n) = bitlen \<bar>n\<bar> - 1"
proof -
  from assms have "1 \<le> \<bar>n\<bar>" by simp
  then have "(of_int 1 :: real) \<le> of_int \<bar>n\<bar>" by (simp only: of_int_le_iff)
  then have "1 \<le> \<bar>of_int n :: real\<bar>" by simp
  moreover have "\<lfloor>\<bar>of_int n :: real\<bar>\<rfloor> = \<bar>n\<bar>"
    by (metis floor_of_int of_int_abs)
  ultimately show ?thesis by (simp add: exponent_def)
qed

lemma rnd_of_int:
  assumes "\<bar>n\<bar> \<le> 2 ^ 53"
  shows "rnd (of_int n) = of_int n"
proof (cases "n = 0")
  case True
  then show ?thesis by simp
next
  case False
  then have pos: "0 < \<bar>n\<bar>" by simp
  define e where "e = bitlen \<bar>n\<bar> - 1"
  have ex: "exponent (of_int n) = e" using False by (simp add: exponent_of_int e_def)
  from bitlen_bounds [OF pos] have lo: "2 ^ nat e \<le> \<bar>n\<bar>" and hi: "\<bar>n\<bar> < 2 ^ nat (e + 1)"
    by (simp_all add: e_def)
  have e0: "0 \<le> e" using pos bitlen_alt_def [of "\<bar>n\<bar>"] by (simp add: e_def)
  from lo assms have "(2 :: int) ^ nat e \<le> 2 ^ 53" by linarith
  then have "nat e \<le> 53" by (rule power_le_imp_le_exp [rotated]) simp
  then have e53: "e \<le> 53" by simp
  show ?thesis
  proof (cases "e \<le> 52")
    case True
    then have "(2 :: real) powi (52 - e) = of_int (2 ^ nat (52 - e))"
      by (simp add: power_int_def)
    then have "of_int n * 2 powi (52 - exponent (of_int n)) = (of_int (n * 2 ^ nat (52 - e)) :: real)"
      by (simp add: ex)
    then show ?thesis by (rule rnd_exact)
  next
    case False
    with e53 have e: "e = 53" by simp
    with lo assms have "\<bar>n\<bar> = 2 ^ 53" by simp
    then have "n = 2 ^ 53 \<or> n = - (2 ^ 53)" by linarith
    then have "of_int n * 2 powi (52 - exponent (of_int n)) = (of_int (n div 2) :: real)"
      by (auto simp: ex e)
    then show ?thesis by (rule rnd_exact)
  qed
qed

lemma rnd_numeral [simp]: "numeral k \<le> (9007199254740992 :: int) \<Longrightarrow> rnd (numeral k) = numeral k"
  using rnd_of_int [of "numeral k"] by simp

lemma rnd_neg_numeral [simp]:
  "numeral k \<le> (9007199254740992 :: int) \<Longrightarrow> rnd (- numeral k) = - numeral k"
  using rnd_of_int [of "- numeral k"] by simp

lemma rnd_one [simp]: "rnd 1 = 1"
  using rnd_of_int [of 1] by simp

lemma exponent_bounds:
  assumes "x \<noteq> 0"
  shows "2 powi exponent x \<le> \<bar>x\<bar> \<and> \<bar>x\<bar> < 2 powi (exponent x + 1)"
proof (cases "1 \<le> \<bar>x\<bar>")
  case True
  define n where "n = \<lfloor>\<bar>x\<bar>\<rfloor>"
  from True have n: "0 < n" by (simp add: n_def)
  define e where "e = bitlen n - 1"
  from bitlen_bounds [OF n] have lo: "2 ^ nat e \<le> n" and hi: "n < 2 ^ nat (e + 1)"
    by (simp_all add: e_def)
  from n have e0: "0 \<le> e" using bitlen_alt_def [of n] by (simp add: e_def)
  have ex: "exponent x = e" using True by (simp add: exponent_def e_def n_def)
  have "(2 :: real) powi e = of_int (2 ^ nat e)" using e0 by (simp add: power_int_def)
  also have "\<dots> \<le> of_int n" using lo by (simp only: of_int_le_iff)
  also have "\<dots> \<le> \<bar>x\<bar>" by (simp add: n_def)
  finally have l: "2 powi e \<le> \<bar>x\<bar>" .
  from hi have "n + 1 \<le> 2 ^ nat (e + 1)" by simp
  then have "(of_int (n + 1) :: real) \<le> of_int (2 ^ nat (e + 1))" by (simp only: of_int_le_iff)
  moreover have "\<bar>x\<bar> < of_int (n + 1)" by (simp add: n_def)
  moreover have "(2 :: real) powi (e + 1) = of_int (2 ^ nat (e + 1))"
    using e0 by (simp add: power_int_def)
  ultimately have "\<bar>x\<bar> < 2 powi (e + 1)" by simp
  with l ex show ?thesis by simp
next
  case False
  with assms have x: "0 < \<bar>x\<bar>" "\<bar>x\<bar> < 1" by simp_all
  define y where "y = 1 / \<bar>x\<bar>"
  from x have y1: "1 < y" by (simp add: y_def)
  define m where "m = \<lceil>y\<rceil>"
  from y1 have m2: "2 \<le> m" by (simp add: m_def le_ceiling_iff)
  then have m1: "0 < m - 1" by simp
  define b where "b = bitlen (m - 1)"
  from bitlen_bounds [OF m1] have lo: "2 ^ nat (b - 1) \<le> m - 1" and hi: "m - 1 < 2 ^ nat b"
    by (simp_all add: b_def)
  from m1 have b1: "1 \<le> b" using bitlen_alt_def [of "m - 1"] by (simp add: b_def)
  have ex: "exponent x = - b" using False by (simp add: exponent_def b_def m_def y_def)
  from hi have "m \<le> 2 ^ nat b" by simp
  then have "(of_int m :: real) \<le> 2 ^ nat b"
    by (metis of_int_le_iff of_int_numeral of_int_power)
  moreover have "y \<le> of_int m" by (simp add: m_def)
  ultimately have yb: "y \<le> 2 ^ nat b" by linarith
  from lo have "(2 :: real) ^ nat (b - 1) \<le> of_int (m - 1)"
    by (metis of_int_le_iff of_int_numeral of_int_power)
  moreover have "of_int (m - 1) < y" unfolding m_def by linarith
  ultimately have by': "2 ^ nat (b - 1) < y" by linarith
  have p: "(2 :: real) powi (- b) = 1 / 2 ^ nat b" using b1
    by (simp add: power_int_def field_simps)
  have q: "(2 :: real) powi (- b + 1) = 1 / 2 ^ nat (b - 1)" using b1
    by (simp add: power_int_def field_simps nat_diff_distrib)
  from yb x have "1 / 2 ^ nat b \<le> \<bar>x\<bar>"
    by (simp add: y_def field_simps)
  moreover from by' x have "\<bar>x\<bar> < 1 / 2 ^ nat (b - 1)"
    by (simp add: y_def field_simps)
  ultimately show ?thesis using ex p q by simp
qed

lemma round_even_error: "\<bar>of_int (round_even q) - q\<bar> \<le> 1 / 2"
  unfolding round_even_def Let_def by (auto simp: abs_if) linarith+

lemma rnd_error: "\<bar>rnd x - x\<bar> \<le> 2 powi (exponent x - 53)"
proof (cases "x = 0")
  case True
  then show ?thesis by simp
next
  case False
  let ?e = "exponent x"
  let ?q = "x * 2 powi (52 - ?e)"
  have u: "(2 :: real) powi (52 - ?e) * 2 powi (?e - 52) = 1"
    by (simp add: power_int_add [symmetric])
  have "rnd x - x = (of_int (round_even ?q) - ?q) * 2 powi (?e - 52)"
    using False u by (simp add: rnd_def algebra_simps)
  then have "\<bar>rnd x - x\<bar> = \<bar>of_int (round_even ?q) - ?q\<bar> * 2 powi (?e - 52)"
    by (simp add: abs_mult)
  also have "\<dots> \<le> 1 / 2 * 2 powi (?e - 52)"
    by (rule mult_right_mono [OF round_even_error]) simp
  also have "\<dots> = 2 powi (?e - 53)"
    by (simp add: power_int_diff)
  finally show ?thesis .
qed

section \<open>Profit and loss\<close>





section \<open>Trade identifiers\<close>

lemma digitChar_isDigit: "d < 10 \<Longrightarrow> isDigit (digitChar d)"
  by (simp add: isDigit_def digitChar_def)

lemma digitValue_digitChar: "d < 10 \<Longrightarrow> digitValue (digitChar d) = d"
  by (simp add: digitValue_def digitChar_def)

lemma digitChar_zero: "d < 10 \<Longrightarrow> (digitChar d = CHR ''0'') = (d = 0)"
proof -
  assume "d < 10"
  then have "digitValue (digitChar d) = d" by (rule digitValue_digitChar)
  moreover have "digitValue (CHR ''0'') = 0" by (simp add: digitValue_def)
  moreover have "digitChar 0 = CHR ''0''" by code_simp
  ultimately show ?thesis by metis
qed

lemma digitsValue_snoc: "digitsValue (ds @ [c]) = 10 * digitsValue ds + digitValue c"
  by (simp add: digitsValue_def)

lemma toString_digits: "list_all isDigit (toString n)"
proof (induction n rule: toString.induct)
  case (1 n)
  show ?case
  proof (cases "n < 10")
    case True
    then show ?thesis by (subst toString.simps) (simp add: digitChar_isDigit)
  next
    case False
    with "1" show ?thesis by (subst toString.simps) (simp add: digitChar_isDigit)
  qed
qed

lemma digitsValue_toString: "digitsValue (toString n) = n"
proof (induction n rule: toString.induct)
  case (1 n)
  show ?case
  proof (cases "n < 10")
    case True
    then show ?thesis
      by (subst toString.simps) (simp add: digitsValue_def digitValue_digitChar)
  next
    case False
    with "1" show ?thesis
      by (subst toString.simps) (simp add: digitsValue_snoc digitValue_digitChar)
  qed
qed

lemma toString_nonempty: "toString n \<noteq> []"
  by (subst toString.simps) simp

lemma hd_toString: "0 < n \<Longrightarrow> hd (toString n) \<noteq> CHR ''0''"
proof (induction n rule: toString.induct)
  case (1 n)
  show ?case
  proof (cases "n < 10")
    case True
    with "1.prems" show ?thesis by (subst toString.simps) (simp add: digitChar_zero)
  next
    case False
    then have "0 < n div 10" by simp
    with False "1.IH" have "hd (toString (n div 10)) \<noteq> CHR ''0''" by simp
    with False show ?thesis by (subst toString.simps) (simp add: toString_nonempty)
  qed
qed

lemma newTrade_id: "id_t (newTrade now userInput parsedTrade ts cfg) = newTradeId ts"
  by (simp add: newTrade_def Let_def)

text \<open>
  C9. The id of a new trade depends on the stored trades through their number \<open>n\<close> only,
  and it is \<^verbatim>\<open>TRADE-\<close> followed by the decimal representation of \<open>n + 1\<close> (digits, the
  first of them not zero, of value \<open>n + 1\<close>) with zeros in front up to three characters.
\<close>

theorem newTrade_id_format:
  "(\<exists>f. \<forall>now userInput parsedTrade ts cfg.
          id_t (newTrade now userInput parsedTrade ts cfg) = f (length ts))
   \<and> (\<exists>ds. id_t (newTrade now userInput parsedTrade ts cfg)
              = ''TRADE-'' @ replicate (3 - length ds) (CHR ''0'') @ ds
            \<and> ds \<noteq> [] \<and> list_all isDigit ds \<and> hd ds \<noteq> CHR ''0''
            \<and> digitsValue ds = length ts + 1)"
proof (rule conjI)
  have "\<forall>now userInput parsedTrade ts cfg.
          id_t (newTrade now userInput parsedTrade ts cfg)
            = (\<lambda>n. ''TRADE-'' @ padStart 3 (CHR ''0'') (toString (n + 1))) (length ts)"
    by (simp add: newTrade_id newTradeId_def)
  then show "\<exists>f. \<forall>now userInput parsedTrade ts cfg.
          id_t (newTrade now userInput parsedTrade ts cfg) = f (length ts)"
    by (rule exI [where x = "\<lambda>n. ''TRADE-'' @ padStart 3 (CHR ''0'') (toString (n + 1))"])
next
  let ?ds = "toString (length ts + 1)"
  have "id_t (newTrade now userInput parsedTrade ts cfg)
          = ''TRADE-'' @ replicate (3 - length ?ds) (CHR ''0'') @ ?ds"
    by (simp add: newTrade_id newTradeId_def padStart_def)
  moreover have "?ds \<noteq> []" by (rule toString_nonempty)
  moreover have "list_all isDigit ?ds" by (rule toString_digits)
  moreover have "hd ?ds \<noteq> CHR ''0''" by (rule hd_toString) simp
  moreover have "digitsValue ?ds = length ts + 1" by (rule digitsValue_toString)
  ultimately show "\<exists>ds. id_t (newTrade now userInput parsedTrade ts cfg)
              = ''TRADE-'' @ replicate (3 - length ds) (CHR ''0'') @ ds
            \<and> ds \<noteq> [] \<and> list_all isDigit ds \<and> hd ds \<noteq> CHR ''0''
            \<and> digitsValue ds = length ts + 1"
    by (intro exI [where x = "?ds"] conjI)
qed

section \<open>The cash ledger\<close>

lemmas example_defs =
  exampleState_def exampleReply_def exampleTrade_def unassignedReply_def unknownAccountReply_def
  roundTripReply_def exitFormAt_def initialForm_def initialState_def initialSettings_def
  exitDataAt_def exampleClosed_def exampleClosedFlat_def
  IncomeGenerator_def Speculation_def TradingLab_def Uncategorized_def

lemmas parse_defs =
  parseFloat_def strUnsignedDecimalLiteral_def isWhiteSpace_def isDigit_def digitsValue_def
  digitValue_def exponentPart_def signedInteger_def scale10_def

lemmas handler_defs =
  handleAddTrade_def handleCloseTrade_def handleSubmit_def submitExitForm_def newTrade_def
  or_else_def calculatePL_def realizedPL_def Let_def ActiveTrade.defs ClosedTrade.defs

lemma accounts_handleAddTrade:
  "accounts (settings (handleAddTrade t st)) =
     map (\<lambda>acc. if Some (name acc) = account t
                 then acc\<lparr>currentCash := currentCash acc - positionSize t\<rparr> else acc)
         (accounts (settings st))"
  by (simp add: handleAddTrade_def)

lemma accounts_handleCloseTrade:
  "accounts (settings (handleCloseTrade c st)) =
     map (\<lambda>acc. if Some (name acc) = account c
                 then acc\<lparr>currentCash := currentCash acc + positionSize c + realizedPL c\<rparr> else acc)
         (accounts (settings st))"
  by (simp add: handleCloseTrade_def realizedPL_def Let_def)

lemma example_open:
  "map currentCash (accounts (settings (handleAddTrade exampleTrade exampleState)))
     = [Num 17000, Num 4000]"
  by (simp add: handler_defs example_defs)

lemma example_submit:
  "handleSubmit ''2025-02-01T10:00:00.000Z'' exampleTrade (exitFormAt ''120'') = Inr exampleClosed"
  by (simp add: handler_defs example_defs parse_defs)

lemma example_realized: "realizedPL exampleClosed = Num 200"
  by (simp add: handler_defs example_defs)

lemma example_close:
  "map currentCash
     (accounts (settings (handleCloseTrade exampleClosed (handleAddTrade exampleTrade exampleState))))
     = [Num 17000, Num 5200]"
  by (simp add: handler_defs example_defs)

text \<open>
  C1. Opening a trade replaces each account named by the trade with the same account
  whose cash is lowered by the position size; closing it replaces each such account
  with the same account whose cash is raised by the position size and then by the
  realised profit or loss. On the example ledger a trade of size 1000 takes the cash of its
  account from 5000 to 4000, and closing it with a profit of 200 brings it to 5200.
\<close>

theorem cash_debit_credit:
  assumes "i < length (accounts (settings st))"
    and "acc = accounts (settings st) ! i"
  shows "(account t = Some (name acc) \<longrightarrow>
            accounts (settings (handleAddTrade t st)) ! i
              = acc\<lparr>currentCash := currentCash acc - positionSize t\<rparr>)
       \<and> (account c = Some (name acc) \<longrightarrow>
            accounts (settings (handleCloseTrade c st)) ! i
              = acc\<lparr>currentCash := currentCash acc + positionSize c
                  + calculatePL (entryPrice c) (exitPrice (exitData c)) (shareCount c) (direction c)\<rparr>)
       \<and> positionSize exampleTrade = Num 1000
       \<and> map currentCash (accounts (settings exampleState)) = [Num 17000, Num 5000]
       \<and> map currentCash (accounts (settings (handleAddTrade exampleTrade exampleState)))
           = [Num 17000, Num 4000]
       \<and> handleSubmit ''2025-02-01T10:00:00.000Z'' exampleTrade (exitFormAt ''120'') = Inr exampleClosed
       \<and> realizedPL exampleClosed = Num 200
       \<and> map currentCash
           (accounts (settings (handleCloseTrade exampleClosed (handleAddTrade exampleTrade exampleState))))
           = [Num 17000, Num 5200]"
proof -
  have "positionSize exampleTrade = Num 1000" by (simp add: handler_defs example_defs)
  moreover have "map currentCash (accounts (settings exampleState)) = [Num 17000, Num 5000]"
    by (simp add: example_defs)
  moreover note example_open example_submit example_realized example_close
  moreover have "account t = Some (name acc) \<longrightarrow>
            accounts (settings (handleAddTrade t st)) ! i
              = acc\<lparr>currentCash := currentCash acc - positionSize t\<rparr>"
    using assms by (simp add: accounts_handleAddTrade)
  moreover have "account c = Some (name acc) \<longrightarrow>
            accounts (settings (handleCloseTrade c st)) ! i
              = acc\<lparr>currentCash := currentCash acc + positionSize c
                  + calculatePL (entryPrice c) (exitPrice (exitData c)) (shareCount c) (direction c)\<rparr>"
    using assms by (simp add: accounts_handleCloseTrade realizedPL_def)
  ultimately show ?thesis by blast
qed

theorem cash_debit_credit_witness:
  "(1 :: nat) < length (accounts (settings exampleState))
   \<and> account exampleTrade = Some (name (accounts (settings exampleState) ! 1))
   \<and> account exampleClosed = Some (name (accounts (settings (handleAddTrade exampleTrade exampleState)) ! 1))
   \<and> currentCash (accounts (settings (handleAddTrade exampleTrade exampleState)) ! 1) = Num 4000
   \<and> currentCash (accounts (settings (handleCloseTrade exampleClosed
        (handleAddTrade exampleTrade exampleState))) ! 1) = Num 5200"
proof -
  have len: "(1 :: nat) < length (accounts (settings exampleState))"
    by (simp add: example_defs)
  have len': "(1 :: nat) < length (accounts (settings (handleAddTrade exampleTrade exampleState)))"
    by (simp add: example_defs handleAddTrade_def)
  have a1: "account exampleTrade = Some (name (accounts (settings exampleState) ! 1))"
    by (simp add: handler_defs example_defs)
  have a2: "account exampleClosed
      = Some (name (accounts (settings (handleAddTrade exampleTrade exampleState)) ! 1))"
    by (simp add: handler_defs example_defs)
  have c0: "currentCash (accounts (settings exampleState) ! 1) = Num 5000"
    by (simp add: example_defs)
  have "currentCash (accounts (settings (handleAddTrade exampleTrade exampleState)) ! 1)
          = Num 5000 - positionSize exampleTrade"
    using cash_debit_credit [OF len refl, of exampleTrade] a1 c0 by simp
  moreover have "positionSize exampleTrade = Num 1000"
    by (simp add: handler_defs example_defs)
  ultimately have c1: "currentCash (accounts (settings (handleAddTrade exampleTrade exampleState)) ! 1)
          = Num 4000" by simp
  have "currentCash (accounts (settings (handleCloseTrade exampleClosed
          (handleAddTrade exampleTrade exampleState))) ! 1)
        = Num 4000 + positionSize exampleClosed
             + calculatePL (entryPrice exampleClosed) (exitPrice (exitData exampleClosed))
                 (shareCount exampleClosed) (direction exampleClosed)"
    using cash_debit_credit [OF len' refl, of _ exampleClosed] a2 c1 by simp
  moreover have "Num 4000 + positionSize exampleClosed
             + calculatePL (entryPrice exampleClosed) (exitPrice (exitData exampleClosed))
                 (shareCount exampleClosed) (direction exampleClosed) = Num 5200"
    by (simp add: handler_defs example_defs)
  ultimately have "currentCash (accounts (settings (handleCloseTrade exampleClosed
          (handleAddTrade exampleTrade exampleState))) ! 1) = Num 5200" by simp
  with len a1 a2 c1 show ?thesis by blast
qed

text \<open>
  C4. Opening or closing a trade leaves every account with another name as it was, and
  changes neither the name nor the starting value of any account. When no account has
  the name of the trade the list of accounts is returned as it was; so it is for a
  reply without an account, whose trade goes to \<open>Uncategorized\<close>, and for a reply
  with an unknown account name. Both handlers are total: they return a state.
\<close>

theorem unmatched_accounts_unchanged:
  assumes "i < length (accounts (settings st))"
    and "acc = accounts (settings st) ! i"
  shows "(account t \<noteq> Some (name acc) \<longrightarrow> accounts (settings (handleAddTrade t st)) ! i = acc)
       \<and> (account c \<noteq> Some (name acc) \<longrightarrow> accounts (settings (handleCloseTrade c st)) ! i = acc)
       \<and> ((\<forall>a \<in> set (accounts (settings st)). account t \<noteq> Some (name a)) \<longrightarrow>
            accounts (settings (handleAddTrade t st)) = accounts (settings st))
       \<and> ((\<forall>a \<in> set (accounts (settings st)). account c \<noteq> Some (name a)) \<longrightarrow>
            accounts (settings (handleCloseTrade c st)) = accounts (settings st))
       \<and> name (accounts (settings (handleAddTrade t st)) ! i) = name acc
       \<and> startingValue (accounts (settings (handleAddTrade t st)) ! i) = startingValue acc
       \<and> name (accounts (settings (handleCloseTrade c st)) ! i) = name acc
       \<and> startingValue (accounts (settings (handleCloseTrade c st)) ! i) = startingValue acc
       \<and> account (newTrade now userInput unassignedReply (trades initialState) (settings initialState))
           = Some Uncategorized
       \<and> settings (handleConfirm now userInput unassignedReply initialState) = settings initialState
       \<and> settings (handleConfirm now userInput unknownAccountReply initialState) = settings initialState"
proof -
  have open_other: "account t \<noteq> Some (name acc) \<longrightarrow> accounts (settings (handleAddTrade t st)) ! i = acc"
    using assms by (auto simp: accounts_handleAddTrade)
  have close_other: "account c \<noteq> Some (name acc) \<longrightarrow> accounts (settings (handleCloseTrade c st)) ! i = acc"
    using assms by (auto simp: accounts_handleCloseTrade)
  have open_none: "(\<forall>a \<in> set (accounts (settings st)). account t \<noteq> Some (name a)) \<longrightarrow>
            accounts (settings (handleAddTrade t st)) = accounts (settings st)"
    unfolding accounts_handleAddTrade by (auto intro!: map_idI)
  have close_none: "(\<forall>a \<in> set (accounts (settings st)). account c \<noteq> Some (name a)) \<longrightarrow>
            accounts (settings (handleCloseTrade c st)) = accounts (settings st)"
    unfolding accounts_handleCloseTrade by (auto intro!: map_idI)
  have frame_open: "name (accounts (settings (handleAddTrade t st)) ! i) = name acc"
    "startingValue (accounts (settings (handleAddTrade t st)) ! i) = startingValue acc"
    using assms by (simp_all add: accounts_handleAddTrade)
  have frame_close: "name (accounts (settings (handleCloseTrade c st)) ! i) = name acc"
    "startingValue (accounts (settings (handleCloseTrade c st)) ! i) = startingValue acc"
    using assms by (simp_all add: accounts_handleCloseTrade)
  have unassigned: "account (newTrade now userInput unassignedReply (trades initialState) (settings initialState))
           = Some Uncategorized"
    by (simp add: newTrade_def unassignedReply_def Let_def)
  have degrade1: "settings (handleConfirm now userInput unassignedReply initialState) = settings initialState"
    by (simp add: handleConfirm_def handleAddTrade_def newTrade_def Let_def example_defs)
  have degrade2: "settings (handleConfirm now userInput unknownAccountReply initialState) = settings initialState"
    by (simp add: handleConfirm_def handleAddTrade_def newTrade_def Let_def example_defs)
  from open_other close_other open_none close_none frame_open frame_close unassigned degrade1 degrade2
  show ?thesis by blast
qed

theorem unmatched_accounts_unchanged_witness:
  "(0 :: nat) < length (accounts (settings exampleState))
   \<and> account exampleTrade \<noteq> Some (name (accounts (settings exampleState) ! 0))
   \<and> account exampleClosed \<noteq> Some (name (accounts (settings exampleState) ! 0))
   \<and> accounts (settings (handleAddTrade exampleTrade exampleState)) ! 0
       = accounts (settings exampleState) ! 0
   \<and> accounts (settings (handleCloseTrade exampleClosed exampleState)) ! 0
       = accounts (settings exampleState) ! 0
   \<and> map name (accounts (settings exampleState)) = [IncomeGenerator, TradingLab]
   \<and> account (exampleTrade\<lparr>account := Some ''Crypto''\<rparr>) = Some ''Crypto''
   \<and> account (exampleClosed\<lparr>account := Some Uncategorized\<rparr>) = Some Uncategorized
   \<and> accounts (settings (handleAddTrade (exampleTrade\<lparr>account := Some ''Crypto''\<rparr>) exampleState))
       = accounts (settings exampleState)
   \<and> accounts (settings (handleCloseTrade (exampleClosed\<lparr>account := Some Uncategorized\<rparr>) exampleState))
       = accounts (settings exampleState)"
proof -
  have len: "(0 :: nat) < length (accounts (settings exampleState))"
    by (simp add: example_defs)
  have n1: "account exampleTrade \<noteq> Some (name (accounts (settings exampleState) ! 0))"
    by (simp add: handler_defs example_defs)
  have n2: "account exampleClosed \<noteq> Some (name (accounts (settings exampleState) ! 0))"
    by (simp add: handler_defs example_defs)
  have n3: "\<forall>a \<in> set (accounts (settings exampleState)).
         account (exampleTrade\<lparr>account := Some ''Crypto''\<rparr>) \<noteq> Some (name a)"
    by (simp add: example_defs)
  have n4: "\<forall>a \<in> set (accounts (settings exampleState)).
         account (exampleClosed\<lparr>account := Some Uncategorized\<rparr>) \<noteq> Some (name a)"
    by (simp add: example_defs)
  from unmatched_accounts_unchanged [OF len refl, of exampleTrade exampleClosed] n1 n2
  have r1: "accounts (settings (handleAddTrade exampleTrade exampleState)) ! 0
       = accounts (settings exampleState) ! 0"
    and r2: "accounts (settings (handleCloseTrade exampleClosed exampleState)) ! 0
       = accounts (settings exampleState) ! 0"
    by blast+
  from unmatched_accounts_unchanged [OF len refl, of "exampleTrade\<lparr>account := Some ''Crypto''\<rparr>"
      "exampleClosed\<lparr>account := Some Uncategorized\<rparr>"] n3 n4
  have r3: "accounts (settings (handleAddTrade (exampleTrade\<lparr>account := Some ''Crypto''\<rparr>) exampleState))
       = accounts (settings exampleState)"
    and r4: "accounts (settings (handleCloseTrade (exampleClosed\<lparr>account := Some Uncategorized\<rparr>) exampleState))
       = accounts (settings exampleState)"
    by blast+
  have names: "map name (accounts (settings exampleState)) = [IncomeGenerator, TradingLab]"
    by (simp add: exampleState_def initialState_def initialSettings_def)
  have a3: "account (exampleTrade\<lparr>account := Some ''Crypto''\<rparr>) = Some ''Crypto''"
    and a4: "account (exampleClosed\<lparr>account := Some Uncategorized\<rparr>) = Some Uncategorized"
    by simp_all
  from len n1 n2 r1 r2 names a3 a4 r3 r4 show ?thesis by (intro conjI) assumption+
qed















section \<open>Closing a trade\<close>

lemma handleSubmit_Inr:
  "handleSubmit now trade form = Inr ct \<Longrightarrow>
     form_exitPrice form \<noteq> []
     \<and> ct = ActiveTrade.extend trade (ClosedTrade.fields
           \<lparr>exitDate = now,
            exitPrice = parseFloat (form_exitPrice form),
            exitReason = form_exitReason form,
            exitReasonDetail = form_exitReasonDetail form,
            reviewRight = form_reviewRight form,
            reviewWrong = form_reviewWrong form,
            lessonLearned = form_lessonLearned form,
            wouldTakeAgain =
              \<lparr>decision = form_wouldTakeAgain form, reason = form_wouldTakeAgainReason form\<rparr>,
            selfRating = form_selfRating form\<rparr>)"
  by (auto simp: handleSubmit_def split: if_splits)

lemma truncate_extend: "ActiveTrade.truncate (ActiveTrade.extend trade (ClosedTrade.fields x)) = trade"
  by (simp add: ActiveTrade.defs ClosedTrade.defs)

lemma exitData_extend: "exitData (ActiveTrade.extend trade (ClosedTrade.fields x)) = x"
  by (simp add: ActiveTrade.defs ClosedTrade.defs)

lemma truncate_fields:
  assumes "ActiveTrade.truncate c = t"
  shows "id_t c = id_t t" "entryPrice c = entryPrice t" "positionSize c = positionSize t"
    "ticker c = ticker t" "direction c = direction t" "shareCount c = shareCount t"
    "account c = account t"
  using assms by (auto simp: ActiveTrade.truncate_def)

lemma trades_handleCloseTrade:
  "trades (handleCloseTrade c st) =
     map (\<lambda>t. if id_t (entryData t) = id_t c then Closed c else t) (trades st)"
  by (simp add: handleCloseTrade_def Let_def)

lemma truncate_id: "id_t (TradeEntryData.truncate r) = id_t r"
  by (simp add: TradeEntryData.truncate_def)

lemma entryData_Closed_id: "id_t (entryData (Closed c)) = id_t c"
  by (simp add: TradeEntryData.truncate_def)

lemma entryData_Active_id: "id_t (entryData (Active a)) = id_t a"
  by (simp add: TradeEntryData.truncate_def)

lemma replace_ids:
  "map (id_t \<circ> entryData) (map (\<lambda>t. if id_t (entryData t) = id_t c then Closed c else t) ts)
     = map (id_t \<circ> entryData) ts"
  by (induction ts) (simp_all add: truncate_id)

lemma replace_unique:
  "x \<in> set ts \<Longrightarrow> distinct (map (id_t \<circ> entryData) ts) \<Longrightarrow> id_t (entryData x) = k \<Longrightarrow>
     filter (\<lambda>t. id_t (entryData t) = k) (map (\<lambda>t. if id_t (entryData t) = k then y else t) ts)
       = (if id_t (entryData y) = k then [y] else [])"
proof (induction ts)
  case Nil
  then show ?case by simp
next
  case (Cons a ts)
  show ?case
  proof (cases "id_t (entryData a) = k")
    case True
    with Cons.prems have "\<forall>t \<in> set ts. id_t (entryData t) \<noteq> k" by (auto simp: image_iff)
    then have "filter (\<lambda>t. id_t (entryData t) = k) (map (\<lambda>t. if id_t (entryData t) = k then y else t) ts) = []"
      by (induction ts) auto
    with True show ?thesis by simp
  next
    case False
    with Cons.prems have "x \<in> set ts" by auto
    with Cons False show ?thesis by simp
  qed
qed



lemma digitsValue_zeros: "digitsValue (replicate k (CHR ''0'') @ ds) = digitsValue ds"
  by (induction k) (simp_all add: digitsValue_def digitValue_def)

lemma padded_value: "digitsValue (padStart 3 (CHR ''0'') (toString n)) = n"
  by (simp add: padStart_def digitsValue_zeros digitsValue_toString)

lemma newTradeId_inj: "newTradeId ts = newTradeId ts' \<Longrightarrow> length ts = length ts'"
proof -
  assume "newTradeId ts = newTradeId ts'"
  then have "padStart 3 (CHR ''0'') (toString (length ts + 1))
      = padStart 3 (CHR ''0'') (toString (length ts' + 1))"
    by (simp add: newTradeId_def)
  then have "digitsValue (padStart 3 (CHR ''0'') (toString (length ts + 1)))
      = digitsValue (padStart 3 (CHR ''0'') (toString (length ts' + 1)))"
    by simp
  then show ?thesis by (simp add: padded_value)
qed

lemma activeTrades_set: "a \<in> set (activeTrades ts) \<longleftrightarrow> Active a \<in> set ts"
proof (induction ts)
  case Nil
  then show ?case by (simp add: activeTrades_def)
next
  case (Cons t ts)
  then show ?case by (cases t) (auto simp: activeTrades_def)
qed

lemma run_snoc: "run (es @ [e]) = step (run es) e"
  by (simp add: run_def)

lemma trades_handleAddTrade: "trades (handleAddTrade t st) = trades st @ [Active t]"
  by (simp add: handleAddTrade_def)

lemma tradeToClose_handleAddTrade: "tradeToClose (handleAddTrade t st) = tradeToClose st"
  by (simp add: handleAddTrade_def)

lemma tradeToClose_handleCloseTrade: "tradeToClose (handleCloseTrade c st) = None"
  by (simp add: handleCloseTrade_def Let_def)

lemma numbered_distinct: "numbered ts \<Longrightarrow> distinct (map (id_t \<circ> entryData) ts)"
proof -
  assume "numbered ts"
  then have eq: "map (id_t \<circ> entryData) ts = map (\<lambda>n. newTradeId (take n ts)) [0..<length ts]"
    by (simp add: numbered_def)
  have "inj_on (\<lambda>n. newTradeId (take n ts)) (set [0..<length ts])"
  proof (rule inj_onI)
    fix m n
    assume m: "m \<in> set [0..<length ts]" and n: "n \<in> set [0..<length ts]"
      and e: "newTradeId (take m ts) = newTradeId (take n ts)"
    from e have "length (take m ts) = length (take n ts)" by (rule newTradeId_inj)
    with m n show "m = n" by simp
  qed
  then have "distinct (map (\<lambda>n. newTradeId (take n ts)) [0..<length ts])"
    by (simp add: distinct_map)
  with eq show ?thesis by simp
qed

lemma newTradeId_length: "length ts = length ts' \<Longrightarrow> newTradeId ts = newTradeId ts'"
  by (simp add: newTradeId_def)

lemma numbered_snoc:
  assumes "numbered ts" and "id_t a = newTradeId ts"
  shows "numbered (ts @ [Active a])"
proof -
  have "map (\<lambda>n. newTradeId (take n (ts @ [Active a]))) [0..<length ts]
      = map (\<lambda>n. newTradeId (take n ts)) [0..<length ts]"
    by (rule map_cong) (auto intro: newTradeId_length)
  with assms show ?thesis
    by (simp add: numbered_def truncate_id)
qed

lemma numbered_replace:
  assumes "numbered ts"
  shows "numbered (map (\<lambda>t. if id_t (entryData t) = id_t c then Closed c else t) ts)"
proof -
  let ?ts' = "map (\<lambda>t. if id_t (entryData t) = id_t c then Closed c else t) ts"
  have "map (\<lambda>n. newTradeId (take n ?ts')) [0..<length ts]
      = map (\<lambda>n. newTradeId (take n ts)) [0..<length ts]"
    by (rule map_cong) (auto intro: newTradeId_length)
  with assms replace_ids [of c ts] show ?thesis
    by (simp add: numbered_def)
qed

lemma step_invariant:
  assumes "numbered (trades st)"
    and "\<forall>a. tradeToClose st = Some a \<longrightarrow> Active a \<in> set (trades st)"
  shows "numbered (trades (step st e))
       \<and> (\<forall>a. tradeToClose (step st e) = Some a \<longrightarrow> Active a \<in> set (trades (step st e)))"
proof (cases e)
  case (ConfirmTrade now userInput parsedTrade)
  with assms show ?thesis
    by (auto simp: handleConfirm_def trades_handleAddTrade tradeToClose_handleAddTrade
        intro!: numbered_snoc newTrade_id)
next
  case (SelectTrade a)
  with assms show ?thesis by (auto simp: activeTrades_set)
next
  case (SubmitExit now form)
  show ?thesis
  proof (cases "tradeToClose st")
    case None
    with assms SubmitExit show ?thesis by (simp add: submitExitForm_def)
  next
    case (Some trade)
    show ?thesis
    proof (cases "handleSubmit now trade form")
      case (Inl alert)
      with assms SubmitExit Some show ?thesis by (simp add: submitExitForm_def)
    next
      case (Inr ct)
      with assms SubmitExit Some show ?thesis
        by (simp add: submitExitForm_def trades_handleCloseTrade tradeToClose_handleCloseTrade
            numbered_replace)
    qed
  qed
qed (use assms in auto)

lemma run_invariant:
  "numbered (trades (run es))
   \<and> (\<forall>a. tradeToClose (run es) = Some a \<longrightarrow> Active a \<in> set (trades (run es)))"
proof (induction es rule: rev_induct)
  case Nil
  show ?case by (simp add: run_def initialState_def numbered_def)
next
  case (snoc e es)
  then show ?case unfolding run_snoc by (intro step_invariant) auto
qed


text \<open>
  C3. The closed trade that the exit form hands over has every field of the active
  trade unchanged (id, prices, size, ticker, direction, share count and account among
  them); what it adds is the exit data read from the form, and it is stored under the
  tag \<open>Closed\<close>. Storing it keeps the length of the trade list and the id at every
  position, replaces the records with the id of the trade by the closed trade and keeps
  the others. When the ids of the list are distinct and the active trade is in it, as
  they are in every state that a session reaches, exactly one record with that id is
  there afterwards: the closed trade.
\<close>

theorem closeTrade_supersedes:
  assumes "handleSubmit now trade form = Inr ct"
  shows "ActiveTrade.truncate ct = trade
       \<and> id_t ct = id_t trade \<and> entryPrice ct = entryPrice trade
       \<and> positionSize ct = positionSize trade \<and> ticker ct = ticker trade
       \<and> direction ct = direction trade \<and> shareCount ct = shareCount trade
       \<and> account ct = account trade
       \<and> exitData ct =
           \<lparr>exitDate = now,
            exitPrice = parseFloat (form_exitPrice form),
            exitReason = form_exitReason form,
            exitReasonDetail = form_exitReasonDetail form,
            reviewRight = form_reviewRight form,
            reviewWrong = form_reviewWrong form,
            lessonLearned = form_lessonLearned form,
            wouldTakeAgain =
              \<lparr>decision = form_wouldTakeAgain form, reason = form_wouldTakeAgainReason form\<rparr>,
            selfRating = form_selfRating form\<rparr>
       \<and> isTradeActive (Active trade) \<and> isTradeClosed (Closed ct)
       \<and> length (trades (handleCloseTrade ct st)) = length (trades st)
       \<and> map (id_t \<circ> entryData) (trades (handleCloseTrade ct st))
           = map (id_t \<circ> entryData) (trades st)
       \<and> (\<forall>i < length (trades st).
             trades (handleCloseTrade ct st) ! i
               = (if id_t (entryData (trades st ! i)) = id_t trade then Closed ct else trades st ! i))
       \<and> (Active trade \<in> set (trades st) \<and> distinct (map (id_t \<circ> entryData) (trades st)) \<longrightarrow>
             filter (\<lambda>t. id_t (entryData t) = id_t trade) (trades (handleCloseTrade ct st))
               = [Closed ct])
       \<and> (st = run es \<and> tradeToClose st = Some trade \<longrightarrow>
             filter (\<lambda>t. id_t (entryData t) = id_t trade) (trades (handleCloseTrade ct st))
               = [Closed ct])"
proof -
  from assms have ct: "ct = ActiveTrade.extend trade (ClosedTrade.fields (exitData ct))"
    and block: "exitData ct =
           \<lparr>exitDate = now,
            exitPrice = parseFloat (form_exitPrice form),
            exitReason = form_exitReason form,
            exitReasonDetail = form_exitReasonDetail form,
            reviewRight = form_reviewRight form,
            reviewWrong = form_reviewWrong form,
            lessonLearned = form_lessonLearned form,
            wouldTakeAgain =
              \<lparr>decision = form_wouldTakeAgain form, reason = form_wouldTakeAgainReason form\<rparr>,
            selfRating = form_selfRating form\<rparr>"
    by (auto dest!: handleSubmit_Inr simp: exitData_extend)
  from ct have tr: "ActiveTrade.truncate ct = trade"
    by (metis truncate_extend)
  note fields = truncate_fields [OF tr]
  have len: "length (trades (handleCloseTrade ct st)) = length (trades st)"
    by (simp add: trades_handleCloseTrade)
  have ids: "map (id_t \<circ> entryData) (trades (handleCloseTrade ct st))
           = map (id_t \<circ> entryData) (trades st)"
    unfolding trades_handleCloseTrade by (rule replace_ids)
  have pointwise: "\<forall>i < length (trades st).
             trades (handleCloseTrade ct st) ! i
               = (if id_t (entryData (trades st ! i)) = id_t trade then Closed ct else trades st ! i)"
    by (simp add: trades_handleCloseTrade fields)
  have one: "filter (\<lambda>t. id_t (entryData t) = id_t trade) (trades (handleCloseTrade ct st))
               = [Closed ct]"
    if h: "Active trade \<in> set (trades st)" "distinct (map (id_t \<circ> entryData) (trades st))"
    for st
  proof -
    have "id_t (entryData (Active trade)) = id_t trade" by (rule entryData_Active_id)
    with h have "filter (\<lambda>t. id_t (entryData t) = id_t trade)
        (map (\<lambda>t. if id_t (entryData t) = id_t trade then Closed ct else t) (trades st))
          = (if id_t (entryData (Closed ct)) = id_t trade then [Closed ct] else [])"
      by (intro replace_unique) auto
    then show ?thesis
      by (simp add: trades_handleCloseTrade fields truncate_id)
  qed
  have unique: "Active trade \<in> set (trades st) \<and> distinct (map (id_t \<circ> entryData) (trades st)) \<longrightarrow>
             filter (\<lambda>t. id_t (entryData t) = id_t trade) (trades (handleCloseTrade ct st))
               = [Closed ct]"
    using one by blast
  have session: "st = run es \<and> tradeToClose st = Some trade \<longrightarrow>
             filter (\<lambda>t. id_t (entryData t) = id_t trade) (trades (handleCloseTrade ct st))
               = [Closed ct]"
  proof
    assume h: "st = run es \<and> tradeToClose st = Some trade"
    with run_invariant [of es] have "Active trade \<in> set (trades st)"
      and "distinct (map (id_t \<circ> entryData) (trades st))"
      by (auto intro: numbered_distinct)
    then show "filter (\<lambda>t. id_t (entryData t) = id_t trade) (trades (handleCloseTrade ct st))
               = [Closed ct]" by (rule one)
  qed
  have tags: "isTradeActive (Active trade)" "isTradeClosed (Closed ct)" by simp_all
  from tr fields block tags len ids pointwise unique session show ?thesis
    by (intro conjI) assumption+
qed

lemma second_submit:
  "handleSubmit ''2025-02-01T10:00:00.000Z'' secondTrade (exitFormAt ''160'') = Inr secondClosed"
  by (simp add: handleSubmit_def secondClosed_def exitDataAt_def exitFormAt_def initialForm_def parse_defs)

lemma session_trades: "trades (run exampleSession) = [Active firstTrade, Active secondTrade]"
  by (simp add: run_def exampleSession_def secondTrade_def firstTrade_def handleConfirm_def
      handleAddTrade_def initialState_def)

lemma session_selected:
  "trades (run (exampleSession @ [SelectTrade secondTrade])) = [Active firstTrade, Active secondTrade]
   \<and> tradeToClose (run (exampleSession @ [SelectTrade secondTrade])) = Some secondTrade"
  unfolding run_snoc using session_trades by (simp add: activeTrades_def)

lemma session_ids: "id_t firstTrade = ''TRADE-001'' \<and> id_t secondTrade = ''TRADE-002''"
proof -
  have "padStart 3 (CHR ''0'') (toString (Suc 0)) = ''001''"
    and "padStart 3 (CHR ''0'') (toString (Suc (Suc 0))) = ''002''"
    by code_simp+
  then show ?thesis
    by (simp add: firstTrade_def secondTrade_def newTrade_id newTradeId_def
        initialState_def run_def exampleSession_def handleConfirm_def handleAddTrade_def)
qed

theorem closeTrade_supersedes_witness:
  "handleSubmit ''2025-02-01T10:00:00.000Z'' secondTrade (exitFormAt ''160'') = Inr secondClosed
   \<and> Active secondTrade \<in> set (trades (run (exampleSession @ [SelectTrade secondTrade])))
   \<and> distinct (map (id_t \<circ> entryData) (trades (run (exampleSession @ [SelectTrade secondTrade]))))
   \<and> tradeToClose (run (exampleSession @ [SelectTrade secondTrade])) = Some secondTrade
   \<and> ActiveTrade.truncate secondClosed = secondTrade
   \<and> exitPrice (exitData secondClosed) = Num 160
   \<and> trades (handleCloseTrade secondClosed (run (exampleSession @ [SelectTrade secondTrade])))
       = [Active firstTrade, Closed secondClosed]
   \<and> filter (\<lambda>t. id_t (entryData t) = id_t secondTrade)
        (trades (handleCloseTrade secondClosed (run (exampleSession @ [SelectTrade secondTrade]))))
       = [Closed secondClosed]"
proof -
  let ?st = "run (exampleSession @ [SelectTrade secondTrade])"
  note sub = second_submit
  from session_selected have mem: "Active secondTrade \<in> set (trades ?st)"
    and sel: "tradeToClose ?st = Some secondTrade" by simp_all
  from session_selected session_ids
  have dist: "distinct (map (id_t \<circ> entryData) (trades ?st))"
    by (simp add: truncate_id)
  note main = closeTrade_supersedes [OF sub, of ?st "exampleSession @ [SelectTrade secondTrade]"]
  from main have tr: "ActiveTrade.truncate secondClosed = secondTrade" by blast
  from main have "exitPrice (exitData secondClosed)
      = parseFloat (form_exitPrice (exitFormAt ''160''))" by simp
  then have px: "exitPrice (exitData secondClosed) = Num 160"
    by (simp add: exitFormAt_def parse_defs)
  from main sel have flt: "filter (\<lambda>t. id_t (entryData t) = id_t secondTrade)
        (trades (handleCloseTrade secondClosed ?st)) = [Closed secondClosed]"
    by blast
  from main have "length (trades (handleCloseTrade secondClosed ?st)) = length (trades ?st)"
    and "\<forall>i < length (trades ?st).
             trades (handleCloseTrade secondClosed ?st) ! i
               = (if id_t (entryData (trades ?st ! i)) = id_t secondTrade then Closed secondClosed
                  else trades ?st ! i)"
    by blast+
  with session_selected session_ids
  have all: "trades (handleCloseTrade secondClosed ?st) = [Active firstTrade, Closed secondClosed]"
    by (auto simp: list_eq_iff_nth_eq truncate_id less_Suc_eq)
  from sub mem dist sel tr px all flt show ?thesis by (intro conjI) assumption+
qed

section \<open>Creating a trade\<close>






section \<open>Validation of the exit form\<close>



lemma literal_digit: "isDigit d \<Longrightarrow> \<exists>r. strUnsignedDecimalLiteral (d # rest) = Num r"
  by (simp add: strUnsignedDecimalLiteral_def Let_def)


lemma parseFloat_minus_digit: "isDigit d \<Longrightarrow> \<exists>r. parseFloat (CHR ''-'' # d # rest) = Num r"
proof -
  assume "isDigit d"
  then obtain r where "strUnsignedDecimalLiteral (d # rest) = Num r"
    using literal_digit by blast
  moreover have "\<not> isWhiteSpace (CHR ''-'')" by (simp add: isWhiteSpace_def)
  ultimately show ?thesis by (simp add: parseFloat_def)
qed







section \<open>Analytics\<close>

lemma stats_loop:
  "foldl (\<lambda>(totalPL', wins) t.
            (let pl = realizedPL t
             in (totalPL' + pl, if pl > Num 0 then wins + 1 else wins)))
         (a, w) ts
   = (foldl (+) a (map realizedPL ts), w + length (filter (\<lambda>t. realizedPL t > Num 0) ts))"
  by (induction ts arbitrary: a w) (simp_all add: Let_def)

lemma stats_empty: "stats [] = \<lparr>totalTrades = 0, winRate = Num 0, totalPL = Num 0, avgPL = Num 0\<rparr>"
  by (simp add: stats_def)

lemma stats_nonempty:
  assumes "ts \<noteq> []"
  shows "stats ts =
    \<lparr>totalTrades = length ts,
     winRate = Num (real (length (filter (\<lambda>t. realizedPL t > Num 0) ts))) / Num (real (length ts))
               * Num 100,
     totalPL = foldl (+) (Num 0) (map realizedPL ts),
     avgPL = foldl (+) (Num 0) (map realizedPL ts) / Num (real (length ts))\<rparr>"
  using assms by (simp add: stats_def stats_loop)

lemma account_names_distinct:
  "IncomeGenerator \<noteq> Speculation" "IncomeGenerator \<noteq> TradingLab" "IncomeGenerator \<noteq> Uncategorized"
  "Speculation \<noteq> TradingLab" "Speculation \<noteq> Uncategorized" "TradingLab \<noteq> Uncategorized"
  "Speculation \<noteq> IncomeGenerator" "TradingLab \<noteq> IncomeGenerator" "Uncategorized \<noteq> IncomeGenerator"
  "TradingLab \<noteq> Speculation" "Uncategorized \<noteq> Speculation" "Uncategorized \<noteq> TradingLab"
  by (simp_all add: IncomeGenerator_def Speculation_def TradingLab_def Uncategorized_def)

lemma accountDataLoop_partition:
  assumes "\<forall>t \<in> set cts. accountKey t \<in> {IncomeGenerator, Speculation, TradingLab, Uncategorized}"
  shows "accountDataLoop
           [(IncomeGenerator, a), (Speculation, b), (TradingLab, c), (Uncategorized, d)] cts
         = Inr [(IncomeGenerator, a @ filter (\<lambda>t. accountKey t = IncomeGenerator) cts),
                (Speculation, b @ filter (\<lambda>t. accountKey t = Speculation) cts),
                (TradingLab, c @ filter (\<lambda>t. accountKey t = TradingLab) cts),
                (Uncategorized, d @ filter (\<lambda>t. accountKey t = Uncategorized) cts)]"
  using assms
proof (induction cts arbitrary: a b c d)
  case Nil
  then show ?case by simp
next
  case (Cons t cts)
  from Cons.prems have rest: "\<forall>t \<in> set cts. accountKey t \<in> {IncomeGenerator, Speculation, TradingLab, Uncategorized}"
    by simp
  from Cons.prems consider "accountKey t = IncomeGenerator" | "accountKey t = Speculation"
    | "accountKey t = TradingLab" | "accountKey t = Uncategorized" by auto
  then show ?case
    by cases (simp_all add: Cons.IH [OF rest] account_names_distinct)
qed

lemma accountCards_partition:
  assumes "\<forall>t \<in> set cts. accountKey t \<in> {IncomeGenerator, Speculation, TradingLab, Uncategorized}"
  shows "accountCards cts
         = Inr (map (\<lambda>a. (a, stats (filter (\<lambda>t. accountKey t = a) cts)))
                  [IncomeGenerator, Speculation, TradingLab])"
  by (simp add: accountCards_def accountData_def accountDataLoop_partition [OF assms]
      account_names_distinct)

lemma pushSource_keys:
  "map fst (pushSource data t)
     = (if source t \<in> set (map fst data) then map fst data else map fst data @ [source t])"
  by (induction data) (fastforce simp: image_iff)+

lemma pushSource_map_of:
  "map_of (pushSource data t) k
     = (if k = source t
        then Some ((case map_of data k of None \<Rightarrow> [] | Some vs \<Rightarrow> vs) @ [t])
        else map_of data k)"
  by (induction data) auto

lemma foldl_pushSource_keys:
  "distinct (map fst data) \<Longrightarrow> distinct (map fst (foldl pushSource data cts))"
  by (induction cts arbitrary: data) (simp_all add: pushSource_keys)

lemma foldl_pushSource_map_of:
  "map_of (foldl pushSource data cts) k
     = (if filter (\<lambda>t. source t = k) cts = [] then map_of data k
        else Some ((case map_of data k of None \<Rightarrow> [] | Some vs \<Rightarrow> vs)
                    @ filter (\<lambda>t. source t = k) cts))"
  by (induction cts arbitrary: data) (auto simp: pushSource_map_of)

lemma groupBySource_entry:
  assumes "(k, vs) \<in> set (groupBySource cts)"
  shows "vs = filter (\<lambda>t. source t = k) cts \<and> vs \<noteq> []"
proof -
  have "distinct (map fst (groupBySource cts))"
    unfolding groupBySource_def by (rule foldl_pushSource_keys) simp
  with assms have "map_of (groupBySource cts) k = Some vs" by simp
  then show ?thesis
    by (simp add: groupBySource_def foldl_pushSource_map_of split: if_splits)
qed

lemma groupBySource_keys:
  "distinct (map fst (groupBySource cts)) \<and> set (map fst (groupBySource cts)) = source ` set cts"
proof
  show d: "distinct (map fst (groupBySource cts))"
    unfolding groupBySource_def by (rule foldl_pushSource_keys) simp
  have "k \<in> set (map fst (groupBySource cts)) \<longleftrightarrow> k \<in> source ` set cts" for k
  proof -
    have "k \<in> set (map fst (groupBySource cts)) \<longleftrightarrow> map_of (groupBySource cts) k \<noteq> None"
      by (simp add: map_of_eq_None_iff)
    also have "\<dots> \<longleftrightarrow> filter (\<lambda>t. source t = k) cts \<noteq> []"
      by (simp add: groupBySource_def foldl_pushSource_map_of)
    also have "\<dots> \<longleftrightarrow> k \<in> source ` set cts"
      by (auto simp: filter_empty_conv)
    finally show ?thesis .
  qed
  then show "set (map fst (groupBySource cts)) = source ` set cts" by blast
qed

lemma sourceData_entry:
  assumes "d \<in> set (sourceData cts)"
  shows "sd_trades d = length (filter (\<lambda>t. source t = sd_name d) cts) \<and> 0 < sd_trades d
       \<and> sd_winRate d
           = (Num (real (length (filter (\<lambda>t. realizedPL t > Num 0)
                           (filter (\<lambda>t. source t = sd_name d) cts))))
              / Num (real (sd_trades d))) * Num 100"
proof -
  from assms obtain k vs where e: "(k, vs) \<in> set (groupBySource cts)" and d: "d = sourceDatum (k, vs)"
    by (auto simp: sourceData_def)
  from groupBySource_entry [OF e] have vs: "vs = filter (\<lambda>t. source t = k) cts" and ne: "vs \<noteq> []"
    by blast+
  from ne have "0 < length vs" by simp
  with d vs show ?thesis by (simp add: sourceDatum_def Let_def)
qed

lemma sourceData_names:
  "distinct (map sd_name (sourceData cts)) \<and> set (map sd_name (sourceData cts)) = source ` set cts"
proof -
  have "map sd_name (sourceData cts) = map fst (groupBySource cts)"
    by (simp add: sourceData_def sourceDatum_def Let_def o_def)
  with groupBySource_keys [of cts] show ?thesis by simp
qed


lemma three_pl: "map realizedPL threeTrades = [Num 100, Num (- 50), Num 30]"
  by (simp add: threeTrades_def closedAt_def handler_defs example_defs)

lemma three_keys: "map accountKey threeTrades = [TradingLab, TradingLab, TradingLab]"
  by (simp add: threeTrades_def closedAt_def accountKey_def handler_defs example_defs)

lemma three_sources: "map source threeTrades = [AISuggestion, AISuggestion, AISuggestion]"
  by (simp add: threeTrades_def closedAt_def handler_defs example_defs)

lemma three_arith:
  "Num 2 / Num 3 * Num 100 = Num (2345624805922133 / 35184372088832)"
  "Num 80 / Num 3 = Num (7505999378950827 / 281474976710656)"
  "Num 0 + Num 100 + Num (- 50) + Num 30 = Num 80"
  by code_simp+

lemma two_thirds: "Num 2 / Num 3 = Num (6004799503160661 / 9007199254740992)"
  by code_simp

lemma three_stats:
  "stats threeTrades
     = \<lparr>totalTrades = 3, winRate = Num (2345624805922133 / 35184372088832), totalPL = Num 80,
        avgPL = Num (7505999378950827 / 281474976710656)\<rparr>"
proof -
  from three_pl have pl: "realizedPL (closedAt 110) = Num 100" "realizedPL (closedAt 95) = Num (- 50)"
    "realizedPL (closedAt 103) = Num 30"
    by (simp_all add: threeTrades_def)
  have ne: "threeTrades \<noteq> []" by (simp add: threeTrades_def)
  show ?thesis
    unfolding stats_nonempty [OF ne]
    by (simp add: threeTrades_def pl three_arith
        del: plus_number.simps times_number.simps divide_number.simps)
qed

text \<open>
  C8, as stated, fails. For three closed trades of one account and one source with
  profits of 100, -50 and 30 the win rate computed by \<open>stats\<close> is the number
  \<open>2345624805922133 / 2 ^ 45\<close>, between 66.6 and 66.7: the wins per trade times 100. It is
  not \<open>2 / 3\<close>, nor the number nearest to it, which is what \<open>2 / 3\<close> evaluates to.
\<close>

theorem winRate_is_percentage:
  "map realizedPL threeTrades = [Num 100, Num (- 50), Num 30]
   \<and> winRate (stats threeTrades) = Num (2345624805922133 / 35184372088832)
   \<and> (66.6 :: real) < 2345624805922133 / 35184372088832
   \<and> winRate (stats threeTrades) \<noteq> Num (2 / 3)
   \<and> winRate (stats threeTrades) \<noteq> Num 2 / Num 3"
  by (simp add: three_pl three_stats two_thirds del: divide_number.simps)

text \<open>
  C8, amended. The statistics of an empty list of closed trades are all zero, no
  division taking place. For a list that is not empty the count is its length, the
  win rate is the number of trades with a profit greater than zero divided by the
  count and multiplied by 100 (a percentage), the total is the sum of the profits,
  added in the order of the list, and the average is the total divided by the count.
  The cards by account show these statistics for the closed trades of each of the
  three named accounts, when every trade has an account of the enum. By source there
  is one entry for each source that has a closed trade, with the count of its trades,
  which is positive, and their win rate in percent, and with no total and no average;
  a group without trades would get the win rate zero. The three trades with profits of
  100, -50 and 30 give count 3, win rate \<open>2345624805922133 / 2 ^ 45\<close> (66.7 percent to one
  decimal), total 80 and average \<open>7505999378950827 / 2 ^ 48\<close> (26.7 to one decimal).
\<close>

theorem partition_statistics:
  "stats [] = \<lparr>totalTrades = 0, winRate = Num 0, totalPL = Num 0, avgPL = Num 0\<rparr>
   \<and> totalTrades (stats ts) = length ts
   \<and> (ts \<noteq> [] \<longrightarrow>
        winRate (stats ts)
          = Num (real (length (filter (\<lambda>t. realizedPL t > Num 0) ts))) / Num (real (length ts))
            * Num 100
        \<and> totalPL (stats ts) = foldl (+) (Num 0) (map realizedPL ts)
        \<and> avgPL (stats ts) = totalPL (stats ts) / Num (real (length ts)))
   \<and> ((\<forall>t \<in> set cts. accountKey t \<in> {IncomeGenerator, Speculation, TradingLab, Uncategorized}) \<longrightarrow>
        accountCards cts
          = Inr (map (\<lambda>a. (a, stats (filter (\<lambda>t. accountKey t = a) cts)))
                   [IncomeGenerator, Speculation, TradingLab]))
   \<and> (\<forall>d \<in> set (sourceData cts).
        sd_trades d = length (filter (\<lambda>t. source t = sd_name d) cts) \<and> 0 < sd_trades d
        \<and> sd_winRate d
            = (Num (real (length (filter (\<lambda>t. realizedPL t > Num 0)
                            (filter (\<lambda>t. source t = sd_name d) cts))))
               / Num (real (sd_trades d))) * Num 100)
   \<and> distinct (map sd_name (sourceData cts))
   \<and> set (map sd_name (sourceData cts)) = source ` set cts
   \<and> sourceDatum (k, []) = \<lparr>sd_name = k, sd_trades = 0, sd_winRate = Num 0\<rparr>
   \<and> stats threeTrades
       = \<lparr>totalTrades = 3, winRate = Num (2345624805922133 / 35184372088832), totalPL = Num 80,
          avgPL = Num (7505999378950827 / 281474976710656)\<rparr>
   \<and> \<bar>2345624805922133 / 35184372088832 - 66.7 :: real\<bar> < 0.05
   \<and> \<bar>7505999378950827 / 281474976710656 - 26.7 :: real\<bar> < 0.05"
proof -
  have count: "totalTrades (stats ts) = length ts"
    by (cases "ts = []") (simp_all add: stats_empty stats_nonempty)
  have formulas: "ts \<noteq> [] \<longrightarrow>
        winRate (stats ts)
          = Num (real (length (filter (\<lambda>t. realizedPL t > Num 0) ts))) / Num (real (length ts))
            * Num 100
        \<and> totalPL (stats ts) = foldl (+) (Num 0) (map realizedPL ts)
        \<and> avgPL (stats ts) = totalPL (stats ts) / Num (real (length ts))"
    by (simp add: stats_nonempty)
  have cards: "(\<forall>t \<in> set cts. accountKey t \<in> {IncomeGenerator, Speculation, TradingLab, Uncategorized}) \<longrightarrow>
        accountCards cts
          = Inr (map (\<lambda>a. (a, stats (filter (\<lambda>t. accountKey t = a) cts)))
                   [IncomeGenerator, Speculation, TradingLab])"
    using accountCards_partition by blast
  have by_source: "\<forall>d \<in> set (sourceData cts).
        sd_trades d = length (filter (\<lambda>t. source t = sd_name d) cts) \<and> 0 < sd_trades d
        \<and> sd_winRate d
            = (Num (real (length (filter (\<lambda>t. realizedPL t > Num 0)
                            (filter (\<lambda>t. source t = sd_name d) cts))))
               / Num (real (sd_trades d))) * Num 100"
    using sourceData_entry by blast
  have names: "distinct (map sd_name (sourceData cts))"
    "set (map sd_name (sourceData cts)) = source ` set cts"
    using sourceData_names [of cts] by blast+
  have empty_source: "sourceDatum (k, []) = \<lparr>sd_name = k, sd_trades = 0, sd_winRate = Num 0\<rparr>"
    by (simp add: sourceDatum_def)
  have approx: "\<bar>2345624805922133 / 35184372088832 - 66.7 :: real\<bar> < 0.05"
    "\<bar>7505999378950827 / 281474976710656 - 26.7 :: real\<bar> < 0.05"
    by simp_all
  from stats_empty count formulas cards by_source names empty_source three_stats approx
  show ?thesis by (intro conjI) assumption+
qed

theorem partition_statistics_witness:
  "map realizedPL threeTrades = [Num 100, Num (- 50), Num 30] \<and> threeTrades \<noteq> []
   \<and> map accountKey threeTrades = [TradingLab, TradingLab, TradingLab]
   \<and> totalTrades (stats threeTrades) = 3
   \<and> winRate (stats threeTrades) = Num (2345624805922133 / 35184372088832)
   \<and> totalPL (stats threeTrades) = Num 80
   \<and> avgPL (stats threeTrades) = Num (7505999378950827 / 281474976710656)
   \<and> accountCards threeTrades
       = Inr [(IncomeGenerator, stats []), (Speculation, stats []), (TradingLab, stats threeTrades)]
   \<and> sourceData threeTrades
       = [\<lparr>sd_name = AISuggestion, sd_trades = 3,
           sd_winRate = Num (2345624805922133 / 35184372088832)\<rparr>]"
proof -
  from three_pl have pl: "realizedPL (closedAt 110) = Num 100" "realizedPL (closedAt 95) = Num (- 50)"
    "realizedPL (closedAt 103) = Num 30"
    by (simp_all add: threeTrades_def)
  from three_keys have keys: "accountKey (closedAt 110) = TradingLab" "accountKey (closedAt 95) = TradingLab"
    "accountKey (closedAt 103) = TradingLab"
    by (simp_all add: threeTrades_def)
  from three_sources have srcs: "source (closedAt 110) = AISuggestion" "source (closedAt 95) = AISuggestion"
    "source (closedAt 103) = AISuggestion"
    by (simp_all add: threeTrades_def)
  have ne: "threeTrades \<noteq> []" by (simp add: threeTrades_def)
  have rec: "\<forall>t \<in> set threeTrades. accountKey t \<in> {IncomeGenerator, Speculation, TradingLab, Uncategorized}"
    by (simp add: threeTrades_def keys)
  note main = partition_statistics [of threeTrades threeTrades]
  from main ne have "totalTrades (stats threeTrades) = length threeTrades"
    and "winRate (stats threeTrades)
          = Num (real (length (filter (\<lambda>t. realizedPL t > Num 0) threeTrades))) / Num (real (length threeTrades))
            * Num 100"
    and "totalPL (stats threeTrades) = foldl (+) (Num 0) (map realizedPL threeTrades)"
    and "avgPL (stats threeTrades) = totalPL (stats threeTrades) / Num (real (length threeTrades))"
    by blast+
  then have s: "totalTrades (stats threeTrades) = 3"
    "winRate (stats threeTrades) = Num (2345624805922133 / 35184372088832)"
    "totalPL (stats threeTrades) = Num 80"
    "avgPL (stats threeTrades) = Num (7505999378950827 / 281474976710656)"
    by (simp_all add: threeTrades_def pl three_arith
        del: plus_number.simps times_number.simps divide_number.simps)
  from main rec have "accountCards threeTrades
          = Inr (map (\<lambda>a. (a, stats (filter (\<lambda>t. accountKey t = a) threeTrades)))
                   [IncomeGenerator, Speculation, TradingLab])" by blast
  then have cards: "accountCards threeTrades
       = Inr [(IncomeGenerator, stats []), (Speculation, stats []), (TradingLab, stats threeTrades)]"
    by (simp add: threeTrades_def keys account_names_distinct)
  from main have "\<forall>d \<in> set (sourceData threeTrades).
        sd_trades d = length (filter (\<lambda>t. source t = sd_name d) threeTrades) \<and> 0 < sd_trades d"
    by blast
  have src: "sourceData threeTrades
       = [\<lparr>sd_name = AISuggestion, sd_trades = 3,
           sd_winRate = Num (2345624805922133 / 35184372088832)\<rparr>]"
    by (simp add: sourceData_def groupBySource_def sourceDatum_def threeTrades_def srcs pl Let_def
        three_arith del: plus_number.simps times_number.simps divide_number.simps)
  from three_pl ne three_keys s cards src show ?thesis by (intro conjI) assumption+
qed


end
